theory Spec2Isabelle
  imports Main "HOL-Library.Multiset" "HOL-Library.Word"
begin

section \<open>Values exchanged with the client\<close>

text \<open>
  The handlers of \<^verbatim>\<open>src/app.py\<close> answer with \<^verbatim>\<open>jsonify(...), status\<close>. A JSON
  value is a tree; a Python \<^verbatim>\<open>dict\<close> is an association list with at most one entry per key
  (\<open>dict_set\<close> below keeps it so), a Python \<^verbatim>\<open>list\<close> is a list.

  Python strings are sequences of code points. The model keeps the code points below 256
  (Latin-1), which is what a WSGI server hands over for a header value and what the
  messages of the program need; a \<open>char\<close> is read as the code point of the same number.
\<close>

datatype json =
    JNull
  | JInt int
  | JStr string
  | JArr "json list"
  | JObj "(string \<times> json) list"

type_synonym dict = "(string \<times> json) list"

text \<open>\<^verbatim>\<open>d[k] = v\<close>: replaces the value of an existing key, appends a new key otherwise.\<close>

fun dict_set :: "dict \<Rightarrow> string \<Rightarrow> json \<Rightarrow> dict" where
  "dict_set [] k v = [(k, v)]"
| "dict_set ((k', v') # d) k v = (if k' = k then (k, v) # d else (k', v') # dict_set d k v)"

text \<open>Reading a key of a JSON object, for stating what a response body contains.\<close>

fun jget :: "json \<Rightarrow> string \<Rightarrow> json option" where
  "jget (JObj d) k = map_of d k"
| "jget _ k = None"

fun jkeys :: "json \<Rightarrow> string set" where
  "jkeys (JObj d) = fst ` set d"
| "jkeys _ = {}"

text \<open>
  \<^verbatim>\<open>APIException(message, status_code)\<close> is raised by the handlers and turned into a JSON
  answer with that status by the registered error handler. \<^verbatim>\<open>ValueError\<close> is the exception
  of the built-in \<^verbatim>\<open>int()\<close>, \<^verbatim>\<open>OverflowError\<close> the one of the database driver for an
  integer parameter the store cannot hold; no handler is registered for either, so the
  request fails with a generic server error.
\<close>

datatype error =
    APIException string nat
  | ValueError
  | OverflowError

type_synonym response = "json \<times> nat"

section \<open>Python built-ins used by the program\<close>

subsection \<open>\<^verbatim>\<open>str.isdigit\<close>\<close>

text \<open>
  \<^verbatim>\<open>str.isdigit()\<close> is true of a non-empty string all of whose characters have the Unicode
  property Numeric_Type=Digit or Numeric_Type=Decimal. Below code point 256 these are the ten
  ASCII digits and the three superscript digits U+00B2, U+00B3 and U+00B9.
\<close>

definition is_ascii_digit :: "char \<Rightarrow> bool" where
  "is_ascii_digit c = (48 \<le> (of_char c :: nat) \<and> (of_char c :: nat) \<le> 57)"

definition is_superscript_digit :: "char \<Rightarrow> bool" where
  "is_superscript_digit c = ((of_char c :: nat) \<in> {178, 179, 185})"

definition isdigit :: "string \<Rightarrow> bool" where
  "isdigit s = (s \<noteq> [] \<and> list_all (\<lambda>c. is_ascii_digit c \<or> is_superscript_digit c) s)"

subsection \<open>\<^verbatim>\<open>int(str)\<close>\<close>

text \<open>
  \<^verbatim>\<open>int(s)\<close> in base ten: surrounding whitespace is dropped, one sign may follow, and the rest
  must be decimal digits, where single underscores may separate digits. Anything else raises
  \<^verbatim>\<open>ValueError\<close>; in particular the superscript digits are not decimal digits. A string
  with more digits than the interpreter's limit, 4300 by default
  (\<^verbatim>\<open>sys.int_info.default_max_str_digits\<close>), raises \<^verbatim>\<open>ValueError\<close> as well; the sign,
  the underscores and the whitespace do not count.
\<close>

definition is_space :: "char \<Rightarrow> bool" where
  "is_space c = ((of_char c :: nat) \<in> {9, 10, 11, 12, 13, 28, 29, 30, 31, 32, 133, 160})"

definition strip :: "string \<Rightarrow> string" where
  "strip s = rev (dropWhile is_space (rev (dropWhile is_space s)))"

definition digit_val :: "char \<Rightarrow> int" where
  "digit_val c = int (of_char c) - 48"

definition max_str_digits :: nat where
  "max_str_digits = 4300"

text \<open>
  \<open>digits_value acc s\<close> reads digits and separating underscores; \<open>after_digit\<close> says whether the
  previous character was a digit, which is when an underscore may come.
\<close>

fun digits_value :: "bool \<Rightarrow> int \<Rightarrow> string \<Rightarrow> error + int" where
  "digits_value after_digit acc [] = (if after_digit then Inr acc else Inl ValueError)"
| "digits_value after_digit acc (c # cs) =
     (if is_ascii_digit c then digits_value True (acc * 10 + digit_val c) cs
      else if c = CHR ''_'' \<and> after_digit \<and> cs \<noteq> [] \<and> is_ascii_digit (hd cs)
        then digits_value False acc cs
      else Inl ValueError)"

definition py_int :: "string \<Rightarrow> error + int" where
  "py_int s =
     (if max_str_digits < length (filter is_ascii_digit s) then Inl ValueError
      else
        (case strip s of
           [] \<Rightarrow> Inl ValueError
         | c # cs \<Rightarrow>
             if c = CHR ''-'' then map_sum (\<lambda>e. e) uminus (digits_value False 0 cs)
             else if c = CHR ''+'' then digits_value False 0 cs
             else digits_value False 0 (c # cs)))"

text \<open>
  A decimal numeral, as a reader of the spec understands "numeric": a non-empty string of
  the digits 0 to 9, and the number it denotes.
\<close>

definition is_decimal :: "string \<Rightarrow> bool" where
  "is_decimal s = (s \<noteq> [] \<and> list_all is_ascii_digit s)"

definition decimal_value :: "string \<Rightarrow> int" where
  "decimal_value s = foldl (\<lambda>acc c. acc * 10 + digit_val c) 0 s"

subsection \<open>\<^verbatim>\<open>str(int)\<close>, as the f-string of \<^verbatim>\<open>ensure_user_exists\<close> uses it\<close>

definition digit_char :: "nat \<Rightarrow> char" where
  "digit_char d = ''0123456789'' ! d"

fun str_nat :: "nat \<Rightarrow> string" where
  "str_nat n =
     (if n < 10 then [digit_char n]
      else str_nat (n div 10) @ [digit_char (n mod 10)])"

definition str_int :: "int \<Rightarrow> string" where
  "str_int i = (if i < 0 then CHR ''-'' # str_nat (nat (- i)) else str_nat (nat i))"

section \<open>The store\<close>

text \<open>
  The store is the database of \<^verbatim>\<open>app.py\<close>, by default SQLite
  (\<^verbatim>\<open>sqlite:////tmp/test.db\<close>). An integer column of it holds a signed 64-bit value, so
  a stored integer is a \<open>64 word\<close>, which Python reads as the \<open>int\<close> given by \<open>sint\<close>. A
  Python \<open>int\<close> handed to the store as a statement parameter must fit that range: the
  driver raises \<^verbatim>\<open>OverflowError\<close> for any other.
\<close>

type_synonym key = "64 word"

definition in_store_range :: "int \<Rightarrow> bool" where
  "in_store_range k = (- (2 ^ 63) \<le> k \<and> k < 2 ^ 63)"

text \<open>
  The four tables of \<^verbatim>\<open>models.py\<close>. A table is the list of its rows in storage order; a new
  row goes to the end. The fields of a record are the stored columns; the functions after
  each record are the attributes as Python reads them. The columns of \<^verbatim>\<open>Pokemon\<close> and
  \<^verbatim>\<open>Region\<close> other than the primary key are declared in \<^verbatim>\<open>models.py\<close>, which is not
  among the sources, so they are a type parameter, and the \<^verbatim>\<open>serialize\<close> methods of both
  classes are parameters of the handlers that call them.
\<close>

record User =
  u_key :: key

definition u_id :: "User \<Rightarrow> int" where
  "u_id u = sint (u_key u)"

record 'a Pokemon =
  p_key :: key
  p_cols :: 'a

definition p_id :: "'a Pokemon \<Rightarrow> int" where
  "p_id p = sint (p_key p)"

record 'a Region =
  r_key :: key
  r_cols :: 'a

definition r_id :: "'a Region \<Rightarrow> int" where
  "r_id r = sint (r_key r)"

record Favorite =
  fav_key :: key
  fav_user_key :: key
  fav_pokemon_key :: "key option"
  fav_region_key :: "key option"

definition fav_id :: "Favorite \<Rightarrow> int" where
  "fav_id f = sint (fav_key f)"

definition fav_user_id :: "Favorite \<Rightarrow> int" where
  "fav_user_id f = sint (fav_user_key f)"

definition fav_pokemon_id :: "Favorite \<Rightarrow> int option" where
  "fav_pokemon_id f = map_option sint (fav_pokemon_key f)"

definition fav_region_id :: "Favorite \<Rightarrow> int option" where
  "fav_region_id f = map_option sint (fav_region_key f)"

record ('p, 'r) store =
  users :: "User list"
  pokemons :: "'p Pokemon list"
  regions :: "'r Region list"
  favorites :: "Favorite list"

text \<open>
  What the handlers read from the request: \<^verbatim>\<open>request.args.get("user_id")\<close> and
  \<^verbatim>\<open>request.headers.get("X-User-Id")\<close>, each \<^verbatim>\<open>None\<close> when absent.
\<close>

record request =
  args_user_id :: "string option"
  header_x_user_id :: "string option"

section \<open>Queries\<close>

text \<open>
  \<^verbatim>\<open>Model.query.get(k)\<close>: the row whose primary key is \<open>k\<close>, or \<^verbatim>\<open>None\<close>; \<open>k\<close> is a
  parameter of the statement.
\<close>

definition query_get :: "('row \<Rightarrow> int) \<Rightarrow> 'row list \<Rightarrow> int \<Rightarrow> error + 'row option" where
  "query_get pk rows k =
     (if in_store_range k then Inr (find (\<lambda>row. pk row = k) rows) else Inl OverflowError)"

text \<open>
  \<^verbatim>\<open>Model.query.order_by(Model.id.asc()).all()\<close> and \<^verbatim>\<open>... .first()\<close>.
\<close>

definition order_by_id :: "('row \<Rightarrow> int) \<Rightarrow> 'row list \<Rightarrow> 'row list" where
  "order_by_id pk rows = sort_key pk rows"

definition first :: "'row list \<Rightarrow> 'row option" where
  "first rows = (case rows of [] \<Rightarrow> None | row # _ \<Rightarrow> Some row)"

text \<open>
  The rows selected by \<^verbatim>\<open>Favorite.query.filter_by(user_id=..., pokemon_id=...)\<close>, by its
  Region twin and by \<^verbatim>\<open>filter_by(user_id=...)\<close>. The values are parameters of the
  statement. The comparison is SQL's: a row whose column is NULL matches no value.
\<close>

definition filter_by_user_pokemon ::
  "int \<Rightarrow> int \<Rightarrow> Favorite list \<Rightarrow> error + Favorite list" where
  "filter_by_user_pokemon user_id pokemon_id favs =
     (if in_store_range user_id \<and> in_store_range pokemon_id
      then Inr (filter (\<lambda>f. fav_user_id f = user_id \<and> fav_pokemon_id f = Some pokemon_id) favs)
      else Inl OverflowError)"

definition filter_by_user_region ::
  "int \<Rightarrow> int \<Rightarrow> Favorite list \<Rightarrow> error + Favorite list" where
  "filter_by_user_region user_id region_id favs =
     (if in_store_range user_id \<and> in_store_range region_id
      then Inr (filter (\<lambda>f. fav_user_id f = user_id \<and> fav_region_id f = Some region_id) favs)
      else Inl OverflowError)"

definition filter_by_user :: "int \<Rightarrow> Favorite list \<Rightarrow> error + Favorite list" where
  "filter_by_user user_id favs =
     (if in_store_range user_id then Inr (filter (\<lambda>f. fav_user_id f = user_id) favs)
      else Inl OverflowError)"

text \<open>
  Modelled from the spec: the primary key that \<^verbatim>\<open>db.session.add(fav); db.session.commit()\<close>
  gives the new row. It is assigned by the database from the column declaration of
  \<^verbatim>\<open>models.py\<close>, which is not among the sources. The spec calls the identifier "integer,
  unique, auto-assigned"; the model takes one more than the largest key in the table, and 1
  for an empty table.
\<close>

definition new_id :: "Favorite list \<Rightarrow> int" where
  "new_id favs = (case favs of [] \<Rightarrow> 1 | f # fs \<Rightarrow> fold max (map fav_id fs) (fav_id f) + 1)"

text \<open>
  The row that \<^verbatim>\<open>Favorite(user_id=..., pokemon_id=..., region_id=...)\<close> becomes in the table
  under the key \<open>i\<close>. Both handlers that store one have looked the user and the target up
  before, so these values are in the store's range and are stored as they are.
\<close>

definition Favorite_row :: "int \<Rightarrow> int \<Rightarrow> int option \<Rightarrow> int option \<Rightarrow> Favorite" where
  "Favorite_row i user_id pokemon_id region_id =
     \<lparr>fav_key = of_int i, fav_user_key = of_int user_id,
      fav_pokemon_key = map_option of_int pokemon_id,
      fav_region_key = map_option of_int region_id\<rparr>"

text \<open>\<^verbatim>\<open>db.session.delete(fav); db.session.commit()\<close> deletes by primary key.\<close>

definition session_delete :: "Favorite \<Rightarrow> Favorite list \<Rightarrow> Favorite list" where
  "session_delete fav favs = filter (\<lambda>g. fav_id g \<noteq> fav_id fav) favs"

text \<open>A nullable integer attribute as a JSON value.\<close>

definition json_opt_int :: "int option \<Rightarrow> json" where
  "json_opt_int x = (case x of None \<Rightarrow> JNull | Some i \<Rightarrow> JInt i)"

text \<open>
  Modelled from the spec: \<^verbatim>\<open>Favorite.serialize()\<close> of \<^verbatim>\<open>models.py\<close>, which is not among
  the sources. The spec shows the body of a created favorite as
  \<^verbatim>\<open>{pokemon_id: 3, region_id: null, user_id: 1}\<close> next to the record's id.
\<close>

definition Favorite_serialize :: "Favorite \<Rightarrow> dict" where
  "Favorite_serialize f =
     [(''id'', JInt (fav_id f)),
      (''user_id'', JInt (fav_user_id f)),
      (''pokemon_id'', json_opt_int (fav_pokemon_id f)),
      (''region_id'', json_opt_int (fav_region_id f))]"

section \<open>Helpers of \<^verbatim>\<open>app.py\<close>\<close>

text \<open>Python's truth value of an optional string and of an optional integer.\<close>

fun truthy_str :: "string option \<Rightarrow> bool" where
  "truthy_str None = False"
| "truthy_str (Some t) = (t \<noteq> [])"

fun truthy_int :: "int option \<Rightarrow> bool" where
  "truthy_int None = False"
| "truthy_int (Some i) = (i \<noteq> 0)"

definition no_users_msg :: string where
  "no_users_msg = ''No hay usuarios en la base de datos. Crea uno en el Admin.''"

definition get_current_user_id :: "request \<Rightarrow> ('p, 'r) store \<Rightarrow> error + int" where
  "get_current_user_id req s =
     (let q_id = args_user_id req;
          h_id = header_x_user_id req
      in if truthy_str q_id \<and> isdigit (the q_id) then py_int (the q_id)
         else if truthy_str h_id \<and> isdigit (the h_id) then py_int (the h_id)
         else (case first (order_by_id u_id (users s)) of
                 None \<Rightarrow> Inl (APIException no_users_msg 400)
               | Some first_user \<Rightarrow> Inr (u_id first_user)))"

definition ensure_user_exists :: "('p, 'r) store \<Rightarrow> int \<Rightarrow> error + User" where
  "ensure_user_exists s user_id =
     (case query_get u_id (users s) user_id of
        Inl e \<Rightarrow> Inl e
      | Inr None \<Rightarrow> Inl (APIException (''User '' @ str_int user_id @ '' no existe.'') 404)
      | Inr (Some user) \<Rightarrow> Inr user)"

text \<open>The two opening lines of every favorites handler.\<close>

definition current_user :: "request \<Rightarrow> ('p, 'r) store \<Rightarrow> error + int" where
  "current_user req s =
     (case get_current_user_id req s of
        Inl e \<Rightarrow> Inl e
      | Inr user_id \<Rightarrow>
          (case ensure_user_exists s user_id of
             Inl e \<Rightarrow> Inl e
           | Inr user \<Rightarrow> Inr user_id))"

section \<open>Reference data\<close>

definition pokemon_not_found_msg :: string where
  "pokemon_not_found_msg = ''Pok'' @ [CHR 0xE9] @ ''mon no encontrado.''"

definition region_not_found_msg :: string where
  "region_not_found_msg = ''Regi'' @ [CHR 0xF3] @ ''n no encontrada.''"

definition list_pokemons ::
  "('p Pokemon \<Rightarrow> json) \<Rightarrow> ('p, 'r) store \<Rightarrow> (error + response) \<times> ('p, 'r) store" where
  "list_pokemons serialize_p s =
     (Inr (JArr (map serialize_p (order_by_id p_id (pokemons s))), 200), s)"

definition get_pokemon ::
  "('p Pokemon \<Rightarrow> json) \<Rightarrow> int \<Rightarrow> ('p, 'r) store \<Rightarrow> (error + response) \<times> ('p, 'r) store" where
  "get_pokemon serialize_p pokemon_id s =
     (case query_get p_id (pokemons s) pokemon_id of
        Inl e \<Rightarrow> (Inl e, s)
      | Inr None \<Rightarrow> (Inl (APIException pokemon_not_found_msg 404), s)
      | Inr (Some p) \<Rightarrow> (Inr (serialize_p p, 200), s))"

definition list_regions ::
  "('r Region \<Rightarrow> json) \<Rightarrow> ('p, 'r) store \<Rightarrow> (error + response) \<times> ('p, 'r) store" where
  "list_regions serialize_r s =
     (Inr (JArr (map serialize_r (order_by_id r_id (regions s))), 200), s)"

definition get_region ::
  "('r Region \<Rightarrow> json) \<Rightarrow> int \<Rightarrow> ('p, 'r) store \<Rightarrow> (error + response) \<times> ('p, 'r) store" where
  "get_region serialize_r region_id s =
     (case query_get r_id (regions s) region_id of
        Inl e \<Rightarrow> (Inl e, s)
      | Inr None \<Rightarrow> (Inl (APIException region_not_found_msg 404), s)
      | Inr (Some r) \<Rightarrow> (Inr (serialize_r r, 200), s))"

section \<open>Favorites of the current user\<close>

text \<open>
  The two enrichment steps of the loop of \<^verbatim>\<open>list_my_favorites\<close>, the body of the loop,
  which gives one item of the answer, and the loop, which an exception leaves at once.
\<close>

definition enrich_pokemon ::
  "('p Pokemon \<Rightarrow> json) \<Rightarrow> ('p, 'r) store \<Rightarrow> Favorite \<Rightarrow> dict \<Rightarrow> error + dict" where
  "enrich_pokemon serialize_p s f item =
     (if truthy_int (fav_pokemon_id f)
      then (case query_get p_id (pokemons s) (the (fav_pokemon_id f)) of
              Inl e \<Rightarrow> Inl e
            | Inr None \<Rightarrow> Inr (dict_set item ''pokemon'' JNull)
            | Inr (Some p) \<Rightarrow> Inr (dict_set item ''pokemon'' (serialize_p p)))
      else Inr item)"

definition enrich_region ::
  "('r Region \<Rightarrow> json) \<Rightarrow> ('p, 'r) store \<Rightarrow> Favorite \<Rightarrow> dict \<Rightarrow> error + dict" where
  "enrich_region serialize_r s f item =
     (if truthy_int (fav_region_id f)
      then (case query_get r_id (regions s) (the (fav_region_id f)) of
              Inl e \<Rightarrow> Inl e
            | Inr None \<Rightarrow> Inr (dict_set item ''region'' JNull)
            | Inr (Some r) \<Rightarrow> Inr (dict_set item ''region'' (serialize_r r)))
      else Inr item)"

definition favorite_item ::
  "('p Pokemon \<Rightarrow> json) \<Rightarrow> ('r Region \<Rightarrow> json) \<Rightarrow> ('p, 'r) store \<Rightarrow> Favorite
     \<Rightarrow> error + dict" where
  "favorite_item serialize_p serialize_r s f =
     (case enrich_pokemon serialize_p s f (Favorite_serialize f) of
        Inl e \<Rightarrow> Inl e
      | Inr item \<Rightarrow> enrich_region serialize_r s f item)"

fun favorite_items ::
  "('p Pokemon \<Rightarrow> json) \<Rightarrow> ('r Region \<Rightarrow> json) \<Rightarrow> ('p, 'r) store \<Rightarrow> Favorite list
     \<Rightarrow> dict list \<Rightarrow> error + dict list" where
  "favorite_items serialize_p serialize_r s [] out = Inr out"
| "favorite_items serialize_p serialize_r s (f # favs) out =
     (case favorite_item serialize_p serialize_r s f of
        Inl e \<Rightarrow> Inl e
      | Inr item \<Rightarrow> favorite_items serialize_p serialize_r s favs (out @ [item]))"

definition list_my_favorites ::
  "('p Pokemon \<Rightarrow> json) \<Rightarrow> ('r Region \<Rightarrow> json) \<Rightarrow> request \<Rightarrow> ('p, 'r) store
     \<Rightarrow> (error + response) \<times> ('p, 'r) store" where
  "list_my_favorites serialize_p serialize_r req s =
     (case current_user req s of
        Inl e \<Rightarrow> (Inl e, s)
      | Inr user_id \<Rightarrow>
          (case filter_by_user user_id (favorites s) of
             Inl e \<Rightarrow> (Inl e, s)
           | Inr rows \<Rightarrow>
               (case favorite_items serialize_p serialize_r s (order_by_id fav_id rows) [] of
                  Inl e \<Rightarrow> (Inl e, s)
                | Inr out \<Rightarrow> (Inr (JArr (map JObj out), 200), s))))"

section \<open>Adding and deleting favorites\<close>

definition already_msg :: string where
  "already_msg = ''Ya estaba en favoritos''"

definition add_fav_pokemon ::
  "request \<Rightarrow> int \<Rightarrow> ('p, 'r) store \<Rightarrow> (error + response) \<times> ('p, 'r) store" where
  "add_fav_pokemon req pokemon_id s =
     (case current_user req s of
        Inl e \<Rightarrow> (Inl e, s)
      | Inr user_id \<Rightarrow>
          (case query_get p_id (pokemons s) pokemon_id of
             Inl e \<Rightarrow> (Inl e, s)
           | Inr None \<Rightarrow> (Inl (APIException pokemon_not_found_msg 404), s)
           | Inr (Some p) \<Rightarrow>
               (case filter_by_user_pokemon user_id pokemon_id (favorites s) of
                  Inl e \<Rightarrow> (Inl e, s)
                | Inr rows \<Rightarrow>
                    (case first rows of
                       Some exists \<Rightarrow>
                         (Inr (JObj [(''msg'', JStr already_msg),
                                     (''favorite'', JObj (Favorite_serialize exists))], 200), s)
                     | None \<Rightarrow>
                         (let fav = Favorite_row (new_id (favorites s)) user_id
                                      (Some pokemon_id) None
                          in (Inr (JObj (Favorite_serialize fav), 201),
                              s\<lparr>favorites := favorites s @ [fav]\<rparr>))))))"

definition add_fav_region ::
  "request \<Rightarrow> int \<Rightarrow> ('p, 'r) store \<Rightarrow> (error + response) \<times> ('p, 'r) store" where
  "add_fav_region req region_id s =
     (case current_user req s of
        Inl e \<Rightarrow> (Inl e, s)
      | Inr user_id \<Rightarrow>
          (case query_get r_id (regions s) region_id of
             Inl e \<Rightarrow> (Inl e, s)
           | Inr None \<Rightarrow> (Inl (APIException region_not_found_msg 404), s)
           | Inr (Some r) \<Rightarrow>
               (case filter_by_user_region user_id region_id (favorites s) of
                  Inl e \<Rightarrow> (Inl e, s)
                | Inr rows \<Rightarrow>
                    (case first rows of
                       Some exists \<Rightarrow>
                         (Inr (JObj [(''msg'', JStr already_msg),
                                     (''favorite'', JObj (Favorite_serialize exists))], 200), s)
                     | None \<Rightarrow>
                         (let fav = Favorite_row (new_id (favorites s)) user_id
                                      None (Some region_id)
                          in (Inr (JObj (Favorite_serialize fav), 201),
                              s\<lparr>favorites := favorites s @ [fav]\<rparr>))))))"

definition pokemon_not_fav_msg :: string where
  "pokemon_not_fav_msg =
     ''Ese Pok'' @ [CHR 0xE9] @ ''mon no est'' @ [CHR 0xE1] @ '' en tus favoritos.''"

definition region_not_fav_msg :: string where
  "region_not_fav_msg =
     ''Esa Regi'' @ [CHR 0xF3] @ ''n no est'' @ [CHR 0xE1] @ '' en tus favoritos.''"

definition pokemon_deleted_msg :: string where
  "pokemon_deleted_msg = ''Favorito (Pok'' @ [CHR 0xE9] @ ''mon) eliminado''"

definition region_deleted_msg :: string where
  "region_deleted_msg = ''Favorito (Regi'' @ [CHR 0xF3] @ ''n) eliminado''"

definition delete_fav_pokemon ::
  "request \<Rightarrow> int \<Rightarrow> ('p, 'r) store \<Rightarrow> (error + response) \<times> ('p, 'r) store" where
  "delete_fav_pokemon req pokemon_id s =
     (case current_user req s of
        Inl e \<Rightarrow> (Inl e, s)
      | Inr user_id \<Rightarrow>
          (case filter_by_user_pokemon user_id pokemon_id (favorites s) of
             Inl e \<Rightarrow> (Inl e, s)
           | Inr rows \<Rightarrow>
               (case first rows of
                  None \<Rightarrow> (Inl (APIException pokemon_not_fav_msg 404), s)
                | Some fav \<Rightarrow>
                    (Inr (JObj [(''msg'', JStr pokemon_deleted_msg)], 200),
                     s\<lparr>favorites := session_delete fav (favorites s)\<rparr>))))"

definition delete_fav_region ::
  "request \<Rightarrow> int \<Rightarrow> ('p, 'r) store \<Rightarrow> (error + response) \<times> ('p, 'r) store" where
  "delete_fav_region req region_id s =
     (case current_user req s of
        Inl e \<Rightarrow> (Inl e, s)
      | Inr user_id \<Rightarrow>
          (case filter_by_user_region user_id region_id (favorites s) of
             Inl e \<Rightarrow> (Inl e, s)
           | Inr rows \<Rightarrow>
               (case first rows of
                  None \<Rightarrow> (Inl (APIException region_not_fav_msg 404), s)
                | Some fav \<Rightarrow>
                    (Inr (JObj [(''msg'', JStr region_deleted_msg)], 200),
                     s\<lparr>favorites := session_delete fav (favorites s)\<rparr>))))"

section \<open>Sequences of requests\<close>

text \<open>
  The four requests that change the favorites table, and the store after a sequence of
  them. A request that fails leaves the store as its handler returns it.
\<close>

datatype fav_op =
    AddPokemon int
  | AddRegion int
  | DeletePokemon int
  | DeleteRegion int

fun handle :: "fav_op \<Rightarrow> request \<Rightarrow> ('p, 'r) store \<Rightarrow> (error + response) \<times> ('p, 'r) store" where
  "handle (AddPokemon k) req s = add_fav_pokemon req k s"
| "handle (AddRegion k) req s = add_fav_region req k s"
| "handle (DeletePokemon k) req s = delete_fav_pokemon req k s"
| "handle (DeleteRegion k) req s = delete_fav_region req k s"

fun run :: "(fav_op \<times> request) list \<Rightarrow> ('p, 'r) store \<Rightarrow> ('p, 'r) store" where
  "run [] s = s"
| "run ((op, req) # rest) s = run rest (snd (handle op req s))"

text \<open>Exactly one of the two target references of a favorite is set.\<close>

definition one_target :: "Favorite \<Rightarrow> bool" where
  "one_target f = ((fav_pokemon_id f = None) \<noteq> (fav_region_id f = None))"

section \<open>A small store for concrete runs\<close>

definition example_serialize_p :: "string Pokemon \<Rightarrow> json" where
  "example_serialize_p p = JObj [(''id'', JInt (p_id p)), (''name'', JStr (p_cols p))]"

definition example_serialize_r :: "string Region \<Rightarrow> json" where
  "example_serialize_r r = JObj [(''id'', JInt (r_id r)), (''name'', JStr (r_cols r))]"

definition example_store :: "(string, string) store" where
  "example_store =
     \<lparr>users = [\<lparr>u_key = 2\<rparr>, \<lparr>u_key = 1\<rparr>],
      pokemons = [\<lparr>p_key = 0, p_cols = ''missingno''\<rparr>, \<lparr>p_key = 3, p_cols = ''venusaur''\<rparr>],
      regions = [\<lparr>r_key = 0, r_cols = ''unknown''\<rparr>, \<lparr>r_key = 7, r_cols = ''kanto''\<rparr>],
      favorites = []\<rparr>"

definition example_store_favs :: "(string, string) store" where
  "example_store_favs =
     example_store\<lparr>favorites :=
       [Favorite_row 5 1 (Some 3) None,
        Favorite_row 2 1 None (Some 7),
        Favorite_row 4 2 (Some 0) None]\<rparr>"

definition request_of :: "string option \<Rightarrow> string option \<Rightarrow> request" where
  "request_of q h = \<lparr>args_user_id = q, header_x_user_id = h\<rparr>"

text \<open>
  A store in which Pokemon 9 and Region 8 were deleted after user 1 had added them.
\<close>

definition example_store_stale :: "(string, string) store" where
  "example_store_stale =
     example_store\<lparr>favorites :=
       [Favorite_row 1 1 (Some 3) None,
        Favorite_row 2 1 (Some 9) None,
        Favorite_row 3 1 None (Some 7),
        Favorite_row 4 1 None (Some 8)]\<rparr>"

text \<open>The example store after user 1 has added Pokemon 0.\<close>

definition example_store_zero :: "(string, string) store" where
  "example_store_zero = snd (add_fav_pokemon (request_of (Some ''1'') None) 0 example_store)"

section \<open>Facts about the store and the queries\<close>

lemmas accessor_defs =
  u_id_def p_id_def r_id_def fav_id_def fav_user_id_def fav_pokemon_id_def
  fav_region_id_def Favorite_row_def in_store_range_def

lemmas example_defs =
  example_store_def example_store_favs_def example_store_stale_def request_of_def
  example_serialize_p_def example_serialize_r_def

lemmas query_defs =
  query_get_def order_by_id_def first_def filter_by_user_pokemon_def
  filter_by_user_region_def filter_by_user_def new_id_def session_delete_def

lemmas resolver_defs =
  get_current_user_id_def ensure_user_exists_def current_user_def
  isdigit_def is_ascii_digit_def is_superscript_digit_def
  py_int_def strip_def is_space_def digit_val_def no_users_msg_def max_str_digits_def

text \<open>What the store holds is in the store's range, and what is in range is stored as it is.\<close>

lemma key_range: "in_store_range (sint (w :: key))"
  using sint_ge [of w] sint_lt [of w] by (simp add: in_store_range_def)

lemma key_of_int: "in_store_range k \<Longrightarrow> sint (of_int k :: key) = k"
  by (simp add: in_store_range_def sint_sbintrunc' signed_take_bit_int_eq_self)

lemma u_id_range: "in_store_range (u_id u)"
  by (simp add: u_id_def key_range)

lemma p_id_range: "in_store_range (p_id p)"
  by (simp add: p_id_def key_range)

lemma r_id_range: "in_store_range (r_id r)"
  by (simp add: r_id_def key_range)

lemma fav_user_id_range: "in_store_range (fav_user_id f)"
  by (simp add: fav_user_id_def key_range)

lemma fav_pokemon_id_range: "fav_pokemon_id f = Some k \<Longrightarrow> in_store_range k"
  by (auto simp: fav_pokemon_id_def key_range)

lemma fav_region_id_range: "fav_region_id f = Some k \<Longrightarrow> in_store_range k"
  by (auto simp: fav_region_id_def key_range)

lemma Favorite_row_user: "in_store_range u \<Longrightarrow> fav_user_id (Favorite_row i u p r) = u"
  by (simp add: fav_user_id_def Favorite_row_def key_of_int)

lemma Favorite_row_pokemon:
  "fav_pokemon_id (Favorite_row i u None r) = None"
  "in_store_range k \<Longrightarrow> fav_pokemon_id (Favorite_row i u (Some k) r) = Some k"
  by (simp_all add: fav_pokemon_id_def Favorite_row_def key_of_int)

lemma Favorite_row_region:
  "fav_region_id (Favorite_row i u p None) = None"
  "in_store_range k \<Longrightarrow> fav_region_id (Favorite_row i u p (Some k)) = Some k"
  by (simp_all add: fav_region_id_def Favorite_row_def key_of_int)

lemma first_filter_None: "first (filter P xs) = None \<longleftrightarrow> (\<forall>x\<in>set xs. \<not> P x)"
  by (induction xs) (auto simp: first_def)

lemma first_filter_Some: "first (filter P xs) = Some f \<Longrightarrow> f \<in> set xs \<and> P f"
  by (induction xs) (auto simp: first_def split: if_splits)

lemma query_get_overflow: "\<not> in_store_range k \<Longrightarrow> query_get pk rows k = Inl OverflowError"
  by (simp add: query_get_def)

lemma query_get_None:
  "query_get pk rows k = Inr None \<longleftrightarrow> in_store_range k \<and> (\<forall>row\<in>set rows. pk row \<noteq> k)"
  by (auto simp: query_get_def find_None_iff)

lemma query_get_Some:
  "query_get pk rows k = Inr (Some row) \<Longrightarrow> row \<in> set rows \<and> pk row = k"
  by (auto simp: query_get_def find_Some_iff split: if_splits)

lemma query_get_cases:
  assumes "in_store_range k"
  obtains "query_get pk rows k = Inr None" | row where "query_get pk rows k = Inr (Some row)"
  using assms by (cases "find (\<lambda>row. pk row = k) rows") (auto simp: query_get_def)

lemma order_by_id_sorted: "sorted (map pk (order_by_id pk rows))"
  by (simp add: order_by_id_def)

lemma order_by_id_mset: "mset (order_by_id pk rows) = mset rows"
  by (simp add: order_by_id_def)

section \<open>Reading one Pokemon or Region\<close>

text \<open>
  Claim C7, as stated: for every identifier that no row of the Pokemon table carries,
  \<^verbatim>\<open>GET /pokemons/{id}\<close> fails with the 404 "not found" error. It fails for the identifier
  9223372036854775808, which no row carries and the route accepts: the store cannot take
  it as a parameter and the request fails with \<^verbatim>\<open>OverflowError\<close> instead.
\<close>

theorem C7_out_of_range_counterexample:
  "9223372036854775808 \<notin> p_id ` set (pokemons example_store)
   \<and> get_pokemon example_serialize_p 9223372036854775808 example_store
       = (Inl OverflowError, example_store)
   \<and> get_pokemon example_serialize_p 9223372036854775808 example_store
       \<noteq> (Inl (APIException pokemon_not_found_msg 404), example_store)"
  by (simp add: get_pokemon_def query_defs example_defs accessor_defs)

text \<open>
  Claim C7, amended. For every identifier that some row of the Pokemon table carries,
  \<^verbatim>\<open>GET /pokemons/{id}\<close> answers 200 with the serialization of a row with that identifier;
  for every identifier within the store's integer range that no row carries it raises the
  404 "not found" exception; for an identifier outside that range the lookup fails with
  \<^verbatim>\<open>OverflowError\<close>. The store is returned as it was in all cases. \<^verbatim>\<open>GET /regions/{id}\<close>
  does the same over the Region table.
\<close>

theorem C7_get_by_id:
  "((\<exists>p\<in>set (pokemons s). p_id p = k) \<longrightarrow>
      (\<exists>p\<in>set (pokemons s). p_id p = k
         \<and> get_pokemon serialize_p k s = (Inr (serialize_p p, 200), s)))
   \<and> (in_store_range k \<and> \<not> (\<exists>p\<in>set (pokemons s). p_id p = k) \<longrightarrow>
      get_pokemon serialize_p k s = (Inl (APIException pokemon_not_found_msg 404), s))
   \<and> (\<not> in_store_range k \<longrightarrow> get_pokemon serialize_p k s = (Inl OverflowError, s))
   \<and> ((\<exists>r\<in>set (regions s). r_id r = k) \<longrightarrow>
      (\<exists>r\<in>set (regions s). r_id r = k
         \<and> get_region serialize_r k s = (Inr (serialize_r r, 200), s)))
   \<and> (in_store_range k \<and> \<not> (\<exists>r\<in>set (regions s). r_id r = k) \<longrightarrow>
      get_region serialize_r k s = (Inl (APIException region_not_found_msg 404), s))
   \<and> (\<not> in_store_range k \<longrightarrow> get_region serialize_r k s = (Inl OverflowError, s))"
proof -
  have p: "\<exists>p\<in>set (pokemons s). p_id p = k
             \<and> get_pokemon serialize_p k s = (Inr (serialize_p p, 200), s)"
    if ex: "\<exists>p\<in>set (pokemons s). p_id p = k"
  proof -
    from ex have "in_store_range k" using p_id_range by auto
    then show ?thesis
    proof (cases rule: query_get_cases [of k p_id "pokemons s"])
      case 1
      with ex show ?thesis by (simp add: query_get_None)
    next
      case (2 row)
      then show ?thesis using query_get_Some [OF 2] by (auto simp: get_pokemon_def)
    qed
  qed
  have r: "\<exists>r\<in>set (regions s). r_id r = k
             \<and> get_region serialize_r k s = (Inr (serialize_r r, 200), s)"
    if ex: "\<exists>r\<in>set (regions s). r_id r = k"
  proof -
    from ex have "in_store_range k" using r_id_range by auto
    then show ?thesis
    proof (cases rule: query_get_cases [of k r_id "regions s"])
      case 1
      with ex show ?thesis by (simp add: query_get_None)
    next
      case (2 row)
      then show ?thesis using query_get_Some [OF 2] by (auto simp: get_region_def)
    qed
  qed
  have pn: "get_pokemon serialize_p k s = (Inl (APIException pokemon_not_found_msg 404), s)"
    if "in_store_range k \<and> \<not> (\<exists>p\<in>set (pokemons s). p_id p = k)"
    using that by (simp add: get_pokemon_def query_get_None [THEN iffD2])
  have rn: "get_region serialize_r k s = (Inl (APIException region_not_found_msg 404), s)"
    if "in_store_range k \<and> \<not> (\<exists>r\<in>set (regions s). r_id r = k)"
    using that by (simp add: get_region_def query_get_None [THEN iffD2])
  have po: "get_pokemon serialize_p k s = (Inl OverflowError, s)" if "\<not> in_store_range k"
    using that by (simp add: get_pokemon_def query_get_overflow)
  have ro: "get_region serialize_r k s = (Inl OverflowError, s)" if "\<not> in_store_range k"
    using that by (simp add: get_region_def query_get_overflow)
  from p r pn rn po ro show ?thesis by blast
qed

text \<open>
  Pokemon 3 and Region 7 are in the example store, number 4 is in neither table, and
  9223372036854775808 is outside the store's range.
\<close>

theorem C7_get_by_id_witness:
  "(\<exists>p\<in>set (pokemons example_store). p_id p = 3)
   \<and> get_pokemon example_serialize_p 3 example_store
       = (Inr (JObj [(''id'', JInt 3), (''name'', JStr ''venusaur'')], 200), example_store)
   \<and> in_store_range 4
   \<and> \<not> (\<exists>p\<in>set (pokemons example_store). p_id p = 4)
   \<and> get_pokemon example_serialize_p 4 example_store
       = (Inl (APIException pokemon_not_found_msg 404), example_store)
   \<and> (\<exists>r\<in>set (regions example_store). r_id r = 7)
   \<and> get_region example_serialize_r 7 example_store
       = (Inr (JObj [(''id'', JInt 7), (''name'', JStr ''kanto'')], 200), example_store)
   \<and> \<not> (\<exists>r\<in>set (regions example_store). r_id r = 4)
   \<and> get_region example_serialize_r 4 example_store
       = (Inl (APIException region_not_found_msg 404), example_store)
   \<and> \<not> in_store_range 9223372036854775808
   \<and> get_pokemon example_serialize_p 9223372036854775808 example_store
       = (Inl OverflowError, example_store)
   \<and> get_region example_serialize_r 9223372036854775808 example_store
       = (Inl OverflowError, example_store)"
  using C7_get_by_id [of example_store 3 example_serialize_p example_serialize_r]
    C7_get_by_id [of example_store 4 example_serialize_p example_serialize_r]
    C7_get_by_id [of example_store 7 example_serialize_p example_serialize_r]
    C7_get_by_id [of example_store 9223372036854775808 example_serialize_p example_serialize_r]
  by (auto simp: example_defs accessor_defs)

section \<open>Facts about the listing of favorites\<close>

lemma current_user_Inr:
  "current_user req s = Inr u
     \<longleftrightarrow> get_current_user_id req s = Inr u \<and> (\<exists>x\<in>set (users s). u_id x = u)"
proof (cases "get_current_user_id req s")
  case (Inl e)
  then show ?thesis by (simp add: current_user_def)
next
  case (Inr v)
  show ?thesis
  proof (cases "in_store_range v")
    case False
    then have "\<not> (\<exists>x\<in>set (users s). u_id x = v)" using u_id_range by auto
    with False Inr show ?thesis
      by (auto simp: current_user_def ensure_user_exists_def query_get_overflow)
  next
    case True
    then show ?thesis
    proof (cases rule: query_get_cases [of v u_id "users s"])
      case 1
      then have "\<not> (\<exists>x\<in>set (users s). u_id x = v)" by (simp add: query_get_None)
      with 1 Inr show ?thesis by (auto simp: current_user_def ensure_user_exists_def)
    next
      case (2 row)
      from query_get_Some [OF 2] 2 Inr show ?thesis
        by (auto simp: current_user_def ensure_user_exists_def)
    qed
  qed
qed

lemma current_user_range: "current_user req s = Inr u \<Longrightarrow> in_store_range u"
  using u_id_range by (auto simp: current_user_Inr)

lemma enrich_pokemon_eq:
  "enrich_pokemon serialize_p s f item
     = Inr (if truthy_int (fav_pokemon_id f)
            then dict_set item ''pokemon''
                   (case find (\<lambda>p. p_id p = the (fav_pokemon_id f)) (pokemons s) of
                      Some p \<Rightarrow> serialize_p p
                    | None \<Rightarrow> JNull)
            else item)"
proof (cases "fav_pokemon_id f")
  case None
  then show ?thesis by (simp add: enrich_pokemon_def)
next
  case (Some k)
  then have "in_store_range k" by (rule fav_pokemon_id_range)
  with Some show ?thesis
    by (simp add: enrich_pokemon_def query_get_def split: option.split)
qed

lemma enrich_region_eq:
  "enrich_region serialize_r s f item
     = Inr (if truthy_int (fav_region_id f)
            then dict_set item ''region''
                   (case find (\<lambda>r. r_id r = the (fav_region_id f)) (regions s) of
                      Some r \<Rightarrow> serialize_r r
                    | None \<Rightarrow> JNull)
            else item)"
proof (cases "fav_region_id f")
  case None
  then show ?thesis by (simp add: enrich_region_def)
next
  case (Some k)
  then have "in_store_range k" by (rule fav_region_id_range)
  with Some show ?thesis
    by (simp add: enrich_region_def query_get_def split: option.split)
qed

lemma favorite_item_total: "\<exists>item. favorite_item serialize_p serialize_r s f = Inr item"
  by (simp add: favorite_item_def enrich_pokemon_eq enrich_region_eq)

lemma favorite_items_append:
  "map (favorite_item serialize_p serialize_r s) favs = map Inr items
     \<Longrightarrow> favorite_items serialize_p serialize_r s favs out = Inr (out @ items)"
proof (induction favs arbitrary: items out)
  case Nil
  then show ?case by simp
next
  case (Cons f favs)
  from Cons.prems obtain item rest where items: "items = item # rest"
    and item: "favorite_item serialize_p serialize_r s f = Inr item"
    and rest: "map (favorite_item serialize_p serialize_r s) favs = map Inr rest"
    by (cases items) auto
  from Cons.IH [OF rest, of "out @ [item]"] item items show ?case by simp
qed

lemma favorite_items_exist:
  "\<exists>items. map (favorite_item serialize_p serialize_r s) favs = map Inr items"
proof (induction favs)
  case Nil
  then show ?case by simp
next
  case (Cons f favs)
  then obtain rest where rest: "map (favorite_item serialize_p serialize_r s) favs = map Inr rest"
    by blast
  from favorite_item_total obtain item where
    "favorite_item serialize_p serialize_r s f = Inr item" by blast
  with rest have "map (favorite_item serialize_p serialize_r s) (f # favs)
      = map Inr (item # rest)" by simp
  then show ?case by blast
qed

lemma list_my_favorites_rows:
  assumes "current_user req s = Inr u"
  shows "\<exists>items. list_my_favorites serialize_p serialize_r req s
                    = (Inr (JArr (map JObj items), 200), s)
           \<and> map (favorite_item serialize_p serialize_r s)
                (order_by_id fav_id (filter (\<lambda>f. fav_user_id f = u) (favorites s)))
               = map Inr items"
proof -
  let ?rows = "order_by_id fav_id (filter (\<lambda>f. fav_user_id f = u) (favorites s))"
  from favorite_items_exist obtain items where
    items: "map (favorite_item serialize_p serialize_r s) ?rows = map Inr items"
    by blast
  from favorite_items_append [OF items, of "[]"]
  have "favorite_items serialize_p serialize_r s ?rows [] = Inr items" by simp
  moreover from assms have "filter_by_user u (favorites s)
      = Inr (filter (\<lambda>f. fav_user_id f = u) (favorites s))"
    by (simp add: filter_by_user_def current_user_range)
  ultimately have "list_my_favorites serialize_p serialize_r req s
                    = (Inr (JArr (map JObj items), 200), s)"
    by (simp add: list_my_favorites_def assms)
  with items show ?thesis by blast
qed

section \<open>Listings\<close>

text \<open>
  Claim C8. \<^verbatim>\<open>GET /pokemons\<close> answers with the serializations of all rows of the Pokemon
  table, \<^verbatim>\<open>GET /regions\<close> with those of all rows of the Region table, and
  \<^verbatim>\<open>GET /users/favorites\<close>, for a resolved and existing user, with one item for each
  Favorite row of that user; each list is in ascending order of the identifier and holds
  every such row exactly as often as the table does (nothing filtered, nothing cut off).
\<close>

theorem C8_listings:
  "(\<exists>rows. list_pokemons serialize_p s = (Inr (JArr (map serialize_p rows), 200), s)
           \<and> sorted (map p_id rows) \<and> mset rows = mset (pokemons s))
   \<and> (\<exists>rows. list_regions serialize_r s = (Inr (JArr (map serialize_r rows), 200), s)
           \<and> sorted (map r_id rows) \<and> mset rows = mset (regions s))
   \<and> (\<forall>user_id. current_user req s = Inr user_id \<longrightarrow>
        (\<exists>rows items. list_my_favorites serialize_p serialize_r req s
                         = (Inr (JArr (map JObj items), 200), s)
           \<and> map (favorite_item serialize_p serialize_r s) rows = map Inr items
           \<and> sorted (map fav_id rows)
           \<and> mset rows = filter_mset (\<lambda>f. fav_user_id f = user_id) (mset (favorites s))))"
proof (intro conjI allI impI)
  show "\<exists>rows. list_pokemons serialize_p s = (Inr (JArr (map serialize_p rows), 200), s)
           \<and> sorted (map p_id rows) \<and> mset rows = mset (pokemons s)"
    unfolding list_pokemons_def using order_by_id_sorted order_by_id_mset by blast
  show "\<exists>rows. list_regions serialize_r s = (Inr (JArr (map serialize_r rows), 200), s)
           \<and> sorted (map r_id rows) \<and> mset rows = mset (regions s)"
    unfolding list_regions_def using order_by_id_sorted order_by_id_mset by blast
next
  fix user_id
  assume u: "current_user req s = Inr user_id"
  let ?rows = "order_by_id fav_id (filter (\<lambda>f. fav_user_id f = user_id) (favorites s))"
  from list_my_favorites_rows [OF u] obtain items where
    "list_my_favorites serialize_p serialize_r req s = (Inr (JArr (map JObj items), 200), s)"
    "map (favorite_item serialize_p serialize_r s) ?rows = map Inr items"
    by blast
  moreover have "sorted (map fav_id ?rows)"
    by (rule order_by_id_sorted)
  moreover have "mset ?rows = filter_mset (\<lambda>f. fav_user_id f = user_id) (mset (favorites s))"
    by (simp add: order_by_id_mset)
  ultimately show "\<exists>rows items. list_my_favorites serialize_p serialize_r req s
                         = (Inr (JArr (map JObj items), 200), s)
           \<and> map (favorite_item serialize_p serialize_r s) rows = map Inr items
           \<and> sorted (map fav_id rows)
           \<and> mset rows = filter_mset (\<lambda>f. fav_user_id f = user_id) (mset (favorites s))"
    by blast
qed

text \<open>
  User 1 of the example store owns the favorites 5 and 2; they come back as 2, 5.
\<close>

theorem C8_listings_witness:
  "current_user (request_of (Some ''1'') None) example_store_favs = Inr 1
   \<and> list_my_favorites example_serialize_p example_serialize_r (request_of (Some ''1'') None)
        example_store_favs
     = (Inr (JArr
          [JObj [(''id'', JInt 2), (''user_id'', JInt 1), (''pokemon_id'', JNull),
                 (''region_id'', JInt 7),
                 (''region'', JObj [(''id'', JInt 7), (''name'', JStr ''kanto'')])],
           JObj [(''id'', JInt 5), (''user_id'', JInt 1), (''pokemon_id'', JInt 3),
                 (''region_id'', JNull),
                 (''pokemon'', JObj [(''id'', JInt 3), (''name'', JStr ''venusaur'')])]], 200),
        example_store_favs)
   \<and> (\<exists>rows items. list_my_favorites example_serialize_p example_serialize_r
                 (request_of (Some ''1'') None) example_store_favs
               = (Inr (JArr (map JObj items), 200), example_store_favs)
         \<and> map (favorite_item example_serialize_p example_serialize_r example_store_favs) rows
             = map Inr items
         \<and> sorted (map fav_id rows)
         \<and> mset rows = filter_mset (\<lambda>f. fav_user_id f = 1) (mset (favorites example_store_favs)))"
proof -
  have h: "current_user (request_of (Some ''1'') None) example_store_favs = Inr 1"
    by (simp add: resolver_defs query_defs example_defs accessor_defs)
  have v: "list_my_favorites example_serialize_p example_serialize_r (request_of (Some ''1'') None)
        example_store_favs
     = (Inr (JArr
          [JObj [(''id'', JInt 2), (''user_id'', JInt 1), (''pokemon_id'', JNull),
                 (''region_id'', JInt 7),
                 (''region'', JObj [(''id'', JInt 7), (''name'', JStr ''kanto'')])],
           JObj [(''id'', JInt 5), (''user_id'', JInt 1), (''pokemon_id'', JInt 3),
                 (''region_id'', JNull),
                 (''pokemon'', JObj [(''id'', JInt 3), (''name'', JStr ''venusaur'')])]], 200),
        example_store_favs)"
    unfolding list_my_favorites_def h
    by (simp add: query_defs example_defs accessor_defs favorite_item_def enrich_pokemon_def
        enrich_region_def Favorite_serialize_def json_opt_int_def)
  from C8_listings [of example_serialize_p example_store_favs example_serialize_r
      "request_of (Some ''1'') None"] h v
  show ?thesis by blast
qed

section \<open>Facts about the favorites handlers\<close>

text \<open>Writing the favorites table does not change who the current user is.\<close>

lemma get_current_user_id_favorites_update:
  "get_current_user_id req (s\<lparr>favorites := favs\<rparr>) = get_current_user_id req s"
  by (simp add: get_current_user_id_def Let_def)

lemma ensure_user_exists_favorites_update:
  "ensure_user_exists (s\<lparr>favorites := favs\<rparr>) user_id = ensure_user_exists s user_id"
  by (simp add: ensure_user_exists_def)

lemma current_user_favorites_update:
  "current_user req (s\<lparr>favorites := favs\<rparr>) = current_user req s"
  by (simp add: current_user_def get_current_user_id_favorites_update
      ensure_user_exists_favorites_update cong: sum.case_cong)

text \<open>The two filters, within the store's range and outside it.\<close>

lemma filter_by_user_pokemon_range:
  "in_store_range u \<Longrightarrow> in_store_range k \<Longrightarrow>
     filter_by_user_pokemon u k favs
       = Inr (filter (\<lambda>f. fav_user_id f = u \<and> fav_pokemon_id f = Some k) favs)"
  by (simp add: filter_by_user_pokemon_def)

lemma filter_by_user_region_range:
  "in_store_range u \<Longrightarrow> in_store_range k \<Longrightarrow>
     filter_by_user_region u k favs
       = Inr (filter (\<lambda>f. fav_user_id f = u \<and> fav_region_id f = Some k) favs)"
  by (simp add: filter_by_user_region_def)

lemma first_user_pokemon:
  "first (filter (\<lambda>f. fav_user_id f = u \<and> fav_pokemon_id f = Some k) favs) = None
     \<longleftrightarrow> \<not> (\<exists>f\<in>set favs. fav_user_id f = u \<and> fav_pokemon_id f = Some k)"
  by (auto simp: first_filter_None)

lemma first_user_region:
  "first (filter (\<lambda>f. fav_user_id f = u \<and> fav_region_id f = Some k) favs) = None
     \<longleftrightarrow> \<not> (\<exists>f\<in>set favs. fav_user_id f = u \<and> fav_region_id f = Some k)"
  by (auto simp: first_filter_None)

lemma first_user_pokemon_Some:
  "first (filter (\<lambda>f. fav_user_id f = u \<and> fav_pokemon_id f = Some k) favs) = Some f
     \<Longrightarrow> f \<in> set favs \<and> fav_user_id f = u \<and> fav_pokemon_id f = Some k"
  by (drule first_filter_Some) simp

lemma first_user_region_Some:
  "first (filter (\<lambda>f. fav_user_id f = u \<and> fav_region_id f = Some k) favs) = Some f
     \<Longrightarrow> f \<in> set favs \<and> fav_user_id f = u \<and> fav_region_id f = Some k"
  by (drule first_filter_Some) simp

lemma session_delete_remove1:
  "f \<in> set favs \<Longrightarrow> distinct (map fav_id favs) \<Longrightarrow> session_delete f favs = remove1 f favs"
proof (induction favs)
  case Nil
  then show ?case by simp
next
  case (Cons g favs)
  show ?case
  proof (cases "g = f")
    case True
    with Cons.prems have "\<forall>h\<in>set favs. fav_id h \<noteq> fav_id f" by (force simp: image_iff)
    then have "filter (\<lambda>h. fav_id h \<noteq> fav_id f) favs = favs" by (simp add: filter_id_conv)
    with True show ?thesis by (simp add: session_delete_def)
  next
    case False
    with Cons.prems have "f \<in> set favs" "distinct (map fav_id favs)" "fav_id g \<noteq> fav_id f"
      by auto
    with Cons.IH False show ?thesis by (simp add: session_delete_def)
  qed
qed

text \<open>Deleting: no matching row, a parameter outside the range, a matching row.\<close>

lemma delete_fav_pokemon_absent:
  assumes "current_user req s = Inr u" and "in_store_range k"
    and "\<not> (\<exists>f\<in>set (favorites s). fav_user_id f = u \<and> fav_pokemon_id f = Some k)"
  shows "delete_fav_pokemon req k s = (Inl (APIException pokemon_not_fav_msg 404), s)"
  using assms current_user_range [OF assms(1)]
  by (simp add: delete_fav_pokemon_def filter_by_user_pokemon_range
      first_user_pokemon [THEN iffD2] del: filter_False)

lemma delete_fav_pokemon_overflow:
  assumes "current_user req s = Inr u" and "\<not> in_store_range k"
  shows "delete_fav_pokemon req k s = (Inl OverflowError, s)"
  using assms by (simp add: delete_fav_pokemon_def filter_by_user_pokemon_def)

lemma delete_fav_pokemon_present:
  assumes "current_user req s = Inr u"
    and "\<exists>f\<in>set (favorites s). fav_user_id f = u \<and> fav_pokemon_id f = Some k"
  shows "\<exists>f\<in>set (favorites s). fav_user_id f = u \<and> fav_pokemon_id f = Some k
           \<and> delete_fav_pokemon req k s
               = (Inr (JObj [(''msg'', JStr pokemon_deleted_msg)], 200),
                  s\<lparr>favorites := session_delete f (favorites s)\<rparr>)"
proof -
  from assms(2) have k: "in_store_range k" using fav_pokemon_id_range by blast
  note q = filter_by_user_pokemon_range [OF current_user_range [OF assms(1)] k]
  show ?thesis
  proof (cases "first (filter (\<lambda>f. fav_user_id f = u \<and> fav_pokemon_id f = Some k)
      (favorites s))")
    case None
    with assms(2) show ?thesis by (simp add: first_user_pokemon)
  next
    case (Some f)
    from first_user_pokemon_Some [OF Some] Some assms(1) q show ?thesis
      by (auto simp: delete_fav_pokemon_def)
  qed
qed

lemma delete_fav_region_absent:
  assumes "current_user req s = Inr u" and "in_store_range k"
    and "\<not> (\<exists>f\<in>set (favorites s). fav_user_id f = u \<and> fav_region_id f = Some k)"
  shows "delete_fav_region req k s = (Inl (APIException region_not_fav_msg 404), s)"
  using assms current_user_range [OF assms(1)]
  by (simp add: delete_fav_region_def filter_by_user_region_range
      first_user_region [THEN iffD2] del: filter_False)

lemma delete_fav_region_overflow:
  assumes "current_user req s = Inr u" and "\<not> in_store_range k"
  shows "delete_fav_region req k s = (Inl OverflowError, s)"
  using assms by (simp add: delete_fav_region_def filter_by_user_region_def)

lemma delete_fav_region_present:
  assumes "current_user req s = Inr u"
    and "\<exists>f\<in>set (favorites s). fav_user_id f = u \<and> fav_region_id f = Some k"
  shows "\<exists>f\<in>set (favorites s). fav_user_id f = u \<and> fav_region_id f = Some k
           \<and> delete_fav_region req k s
               = (Inr (JObj [(''msg'', JStr region_deleted_msg)], 200),
                  s\<lparr>favorites := session_delete f (favorites s)\<rparr>)"
proof -
  from assms(2) have k: "in_store_range k" using fav_region_id_range by blast
  note q = filter_by_user_region_range [OF current_user_range [OF assms(1)] k]
  show ?thesis
  proof (cases "first (filter (\<lambda>f. fav_user_id f = u \<and> fav_region_id f = Some k)
      (favorites s))")
    case None
    with assms(2) show ?thesis by (simp add: first_user_region)
  next
    case (Some f)
    from first_user_region_Some [OF Some] Some assms(1) q show ?thesis
      by (auto simp: delete_fav_region_def)
  qed
qed

text \<open>Adding: the target found in its table, with and without a row for the pair.\<close>

lemma query_get_present:
  assumes "\<exists>row\<in>set rows. pk row = k" and "in_store_range k"
  obtains row where "query_get pk rows k = Inr (Some row)"
  using assms(2)
proof (cases rule: query_get_cases [of k pk rows])
  case 1
  with assms(1) show ?thesis by (simp add: query_get_None)
next
  case (2 row)
  then show ?thesis by (rule that)
qed

lemma add_fav_pokemon_new:
  assumes "current_user req s = Inr u"
    and "\<exists>p\<in>set (pokemons s). p_id p = k"
    and "\<not> (\<exists>f\<in>set (favorites s). fav_user_id f = u \<and> fav_pokemon_id f = Some k)"
  shows "add_fav_pokemon req k s
           = (Inr (JObj (Favorite_serialize
                 (Favorite_row (new_id (favorites s)) u (Some k) None)), 201),
              s\<lparr>favorites := favorites s @
                 [Favorite_row (new_id (favorites s)) u (Some k) None]\<rparr>)"
proof -
  from assms(2) have k: "in_store_range k" using p_id_range by auto
  from query_get_present [OF assms(2) k] obtain p where
    p: "query_get p_id (pokemons s) k = Inr (Some p)" .
  from assms(1,3) p show ?thesis
    by (simp add: add_fav_pokemon_def Let_def first_user_pokemon [THEN iffD2]
        filter_by_user_pokemon_range [OF current_user_range [OF assms(1)] k]
        del: filter_False)
qed

lemma add_fav_pokemon_existing:
  assumes "current_user req s = Inr u"
    and "\<exists>p\<in>set (pokemons s). p_id p = k"
    and "\<exists>f\<in>set (favorites s). fav_user_id f = u \<and> fav_pokemon_id f = Some k"
  shows "\<exists>f\<in>set (favorites s). fav_user_id f = u \<and> fav_pokemon_id f = Some k
           \<and> add_fav_pokemon req k s
               = (Inr (JObj [(''msg'', JStr already_msg),
                             (''favorite'', JObj (Favorite_serialize f))], 200), s)"
proof -
  from assms(2) have k: "in_store_range k" using p_id_range by auto
  from query_get_present [OF assms(2) k] obtain p where
    p: "query_get p_id (pokemons s) k = Inr (Some p)" .
  note q = filter_by_user_pokemon_range [OF current_user_range [OF assms(1)] k]
  show ?thesis
  proof (cases "first (filter (\<lambda>f. fav_user_id f = u \<and> fav_pokemon_id f = Some k)
      (favorites s))")
    case None
    with assms(3) show ?thesis by (simp add: first_user_pokemon)
  next
    case (Some f)
    from first_user_pokemon_Some [OF Some] Some p q assms(1) show ?thesis
      by (auto simp: add_fav_pokemon_def)
  qed
qed

lemma add_fav_region_new:
  assumes "current_user req s = Inr u"
    and "\<exists>r\<in>set (regions s). r_id r = k"
    and "\<not> (\<exists>f\<in>set (favorites s). fav_user_id f = u \<and> fav_region_id f = Some k)"
  shows "add_fav_region req k s
           = (Inr (JObj (Favorite_serialize
                 (Favorite_row (new_id (favorites s)) u None (Some k))), 201),
              s\<lparr>favorites := favorites s @
                 [Favorite_row (new_id (favorites s)) u None (Some k)]\<rparr>)"
proof -
  from assms(2) have k: "in_store_range k" using r_id_range by auto
  from query_get_present [OF assms(2) k] obtain r where
    r: "query_get r_id (regions s) k = Inr (Some r)" .
  from assms(1,3) r show ?thesis
    by (simp add: add_fav_region_def Let_def first_user_region [THEN iffD2]
        filter_by_user_region_range [OF current_user_range [OF assms(1)] k]
        del: filter_False)
qed

lemma add_fav_region_existing:
  assumes "current_user req s = Inr u"
    and "\<exists>r\<in>set (regions s). r_id r = k"
    and "\<exists>f\<in>set (favorites s). fav_user_id f = u \<and> fav_region_id f = Some k"
  shows "\<exists>f\<in>set (favorites s). fav_user_id f = u \<and> fav_region_id f = Some k
           \<and> add_fav_region req k s
               = (Inr (JObj [(''msg'', JStr already_msg),
                             (''favorite'', JObj (Favorite_serialize f))], 200), s)"
proof -
  from assms(2) have k: "in_store_range k" using r_id_range by auto
  from query_get_present [OF assms(2) k] obtain r where
    r: "query_get r_id (regions s) k = Inr (Some r)" .
  note q = filter_by_user_region_range [OF current_user_range [OF assms(1)] k]
  show ?thesis
  proof (cases "first (filter (\<lambda>f. fav_user_id f = u \<and> fav_region_id f = Some k)
      (favorites s))")
    case None
    with assms(3) show ?thesis by (simp add: first_user_region)
  next
    case (Some f)
    from first_user_region_Some [OF Some] Some r q assms(1) show ?thesis
      by (auto simp: add_fav_region_def)
  qed
qed

text \<open>What a handler can do to the favorites table.\<close>

lemma add_fav_pokemon_favorites:
  "favorites (snd (add_fav_pokemon req k s)) = favorites s
   \<or> (\<exists>i u. favorites (snd (add_fav_pokemon req k s))
        = favorites s @ [Favorite_row i u (Some k) None])"
  by (simp add: add_fav_pokemon_def Let_def split: sum.split option.split) blast

lemma add_fav_region_favorites:
  "favorites (snd (add_fav_region req k s)) = favorites s
   \<or> (\<exists>i u. favorites (snd (add_fav_region req k s))
        = favorites s @ [Favorite_row i u None (Some k)])"
  by (simp add: add_fav_region_def Let_def split: sum.split option.split) blast

lemma delete_fav_pokemon_favorites:
  "set (favorites (snd (delete_fav_pokemon req k s))) \<subseteq> set (favorites s)"
  by (simp add: delete_fav_pokemon_def session_delete_def split: sum.split option.split)

lemma delete_fav_region_favorites:
  "set (favorites (snd (delete_fav_region req k s))) \<subseteq> set (favorites s)"
  by (simp add: delete_fav_region_def session_delete_def split: sum.split option.split)

lemma one_target_Favorite_row:
  "one_target (Favorite_row i u (Some k) None)" "one_target (Favorite_row i u None (Some k))"
  by (simp_all add: one_target_def fav_pokemon_id_def fav_region_id_def Favorite_row_def)

lemma add_fav_pokemon_one_target:
  assumes "\<forall>f\<in>set (favorites s). one_target f"
  shows "\<forall>f\<in>set (favorites (snd (add_fav_pokemon req k s))). one_target f"
  using add_fav_pokemon_favorites [of req k s] assms
  by (elim disjE exE) (simp_all add: one_target_Favorite_row)

lemma add_fav_region_one_target:
  assumes "\<forall>f\<in>set (favorites s). one_target f"
  shows "\<forall>f\<in>set (favorites (snd (add_fav_region req k s))). one_target f"
  using add_fav_region_favorites [of req k s] assms
  by (elim disjE exE) (simp_all add: one_target_Favorite_row)

lemma delete_fav_pokemon_one_target:
  assumes "\<forall>f\<in>set (favorites s). one_target f"
  shows "\<forall>f\<in>set (favorites (snd (delete_fav_pokemon req k s))). one_target f"
  using delete_fav_pokemon_favorites [of req k s] assms by blast

lemma delete_fav_region_one_target:
  assumes "\<forall>f\<in>set (favorites s). one_target f"
  shows "\<forall>f\<in>set (favorites (snd (delete_fav_region req k s))). one_target f"
  using delete_fav_region_favorites [of req k s] assms by blast

lemma handle_one_target:
  assumes "\<forall>f\<in>set (favorites s). one_target f"
  shows "\<forall>f\<in>set (favorites (snd (handle op req s))). one_target f"
proof (cases op)
  case (AddPokemon k)
  with add_fav_pokemon_one_target [OF assms] show ?thesis by simp
next
  case (AddRegion k)
  with add_fav_region_one_target [OF assms] show ?thesis by simp
next
  case (DeletePokemon k)
  with delete_fav_pokemon_one_target [OF assms] show ?thesis by simp
next
  case (DeleteRegion k)
  with delete_fav_region_one_target [OF assms] show ?thesis by simp
qed

lemma run_one_target:
  "\<forall>f\<in>set (favorites s). one_target f \<Longrightarrow> \<forall>f\<in>set (favorites (run ops s)). one_target f"
proof (induction ops arbitrary: s)
  case Nil
  then show ?case by simp
next
  case (Cons x ops)
  obtain op req where x: "x = (op, req)" by (cases x)
  from Cons.prems have "\<forall>f\<in>set (favorites (snd (handle op req s))). one_target f"
    by (rule handle_one_target)
  then have "\<forall>f\<in>set (favorites (run ops (snd (handle op req s)))). one_target f"
    by (rule Cons.IH)
  with x show ?case by simp
qed

section \<open>Deleting a favorite\<close>

text \<open>
  Claim C3, as stated: for a resolved, existing user, \<^verbatim>\<open>DELETE /favorite/pokemon/{p}\<close> fails
  with the 404 "not in favorites" error if and only if no favorite row of that user has
  that Pokemon. It fails for the identifier 9223372036854775808, which the route accepts:
  user 1 has no such favorite, but the store cannot take the identifier as a parameter and
  the request fails with \<^verbatim>\<open>OverflowError\<close>, not with the 404 error.
\<close>

theorem C3_out_of_range_counterexample:
  "current_user (request_of (Some ''1'') None) example_store_favs = Inr 1
   \<and> Some 9223372036854775808 \<notin> fav_pokemon_id ` set (favorites example_store_favs)
   \<and> delete_fav_pokemon (request_of (Some ''1'') None) 9223372036854775808 example_store_favs
       = (Inl OverflowError, example_store_favs)
   \<and> delete_fav_pokemon (request_of (Some ''1'') None) 9223372036854775808 example_store_favs
       \<noteq> (Inl (APIException pokemon_not_fav_msg 404), example_store_favs)"
proof -
  have h: "current_user (request_of (Some ''1'') None) example_store_favs = Inr 1"
    by (simp add: resolver_defs query_defs example_defs accessor_defs)
  have n: "Some 9223372036854775808 \<notin> fav_pokemon_id ` set (favorites example_store_favs)"
    by (simp add: example_defs accessor_defs)
  have d: "delete_fav_pokemon (request_of (Some ''1'') None) 9223372036854775808
      example_store_favs = (Inl OverflowError, example_store_favs)"
    unfolding delete_fav_pokemon_def h by (simp add: query_defs accessor_defs)
  from h n d show ?thesis by simp
qed

text \<open>
  Claim C3, amended. For a request whose user is resolved and exists,
  \<^verbatim>\<open>DELETE /favorite/pokemon/{p}\<close> fails exactly when the favorites table has no row of that
  user with that Pokemon. The failure is the 404 "not in favorites" exception exactly when
  in addition \<open>p\<close> is within the store's integer range; for a \<open>p\<close> outside that range it
  is \<^verbatim>\<open>OverflowError\<close>. In both failures the store is returned as it was. Otherwise the
  request answers 200 and deletes, by primary key, a row of that user with that Pokemon:
  when the identifiers of the table are distinct, exactly that row goes.
  \<^verbatim>\<open>DELETE /favorite/region/{r}\<close> does the same for Regions.
\<close>

theorem C3_delete_favorite:
  "(current_user req s = Inr u \<longrightarrow>
      ((\<exists>e. fst (delete_fav_pokemon req k s) = Inl e)
         = (\<not> (\<exists>f\<in>set (favorites s). fav_user_id f = u \<and> fav_pokemon_id f = Some k)))
      \<and> ((fst (delete_fav_pokemon req k s) = Inl (APIException pokemon_not_fav_msg 404))
         = (in_store_range k
            \<and> \<not> (\<exists>f\<in>set (favorites s). fav_user_id f = u \<and> fav_pokemon_id f = Some k)))
      \<and> (in_store_range k
           \<and> \<not> (\<exists>f\<in>set (favorites s). fav_user_id f = u \<and> fav_pokemon_id f = Some k) \<longrightarrow>
           delete_fav_pokemon req k s = (Inl (APIException pokemon_not_fav_msg 404), s))
      \<and> (\<not> in_store_range k \<longrightarrow> delete_fav_pokemon req k s = (Inl OverflowError, s))
      \<and> ((\<exists>f\<in>set (favorites s). fav_user_id f = u \<and> fav_pokemon_id f = Some k) \<longrightarrow>
           (\<exists>f\<in>set (favorites s). fav_user_id f = u \<and> fav_pokemon_id f = Some k
              \<and> delete_fav_pokemon req k s
                  = (Inr (JObj [(''msg'', JStr pokemon_deleted_msg)], 200),
                     s\<lparr>favorites := filter (\<lambda>g. fav_id g \<noteq> fav_id f) (favorites s)\<rparr>)
              \<and> (distinct (map fav_id (favorites s)) \<longrightarrow>
                   favorites (snd (delete_fav_pokemon req k s)) = remove1 f (favorites s)))))
   \<and> (current_user req s = Inr u \<longrightarrow>
      ((\<exists>e. fst (delete_fav_region req k s) = Inl e)
         = (\<not> (\<exists>f\<in>set (favorites s). fav_user_id f = u \<and> fav_region_id f = Some k)))
      \<and> ((fst (delete_fav_region req k s) = Inl (APIException region_not_fav_msg 404))
         = (in_store_range k
            \<and> \<not> (\<exists>f\<in>set (favorites s). fav_user_id f = u \<and> fav_region_id f = Some k)))
      \<and> (in_store_range k
           \<and> \<not> (\<exists>f\<in>set (favorites s). fav_user_id f = u \<and> fav_region_id f = Some k) \<longrightarrow>
           delete_fav_region req k s = (Inl (APIException region_not_fav_msg 404), s))
      \<and> (\<not> in_store_range k \<longrightarrow> delete_fav_region req k s = (Inl OverflowError, s))
      \<and> ((\<exists>f\<in>set (favorites s). fav_user_id f = u \<and> fav_region_id f = Some k) \<longrightarrow>
           (\<exists>f\<in>set (favorites s). fav_user_id f = u \<and> fav_region_id f = Some k
              \<and> delete_fav_region req k s
                  = (Inr (JObj [(''msg'', JStr region_deleted_msg)], 200),
                     s\<lparr>favorites := filter (\<lambda>g. fav_id g \<noteq> fav_id f) (favorites s)\<rparr>)
              \<and> (distinct (map fav_id (favorites s)) \<longrightarrow>
                   favorites (snd (delete_fav_region req k s)) = remove1 f (favorites s)))))"
proof (intro conjI impI)
  assume u: "current_user req s = Inr u"
  let ?ex = "\<exists>f\<in>set (favorites s). fav_user_id f = u \<and> fav_pokemon_id f = Some k"
  consider (present) ?ex | (absent) "\<not> ?ex" "in_store_range k" | (out) "\<not> in_store_range k"
    by blast
  then show "(\<exists>e. fst (delete_fav_pokemon req k s) = Inl e) = (\<not> ?ex)"
  proof cases
    case present
    from delete_fav_pokemon_present [OF u present] present show ?thesis by auto
  next
    case absent
    from delete_fav_pokemon_absent [OF u absent(2) absent(1)] absent show ?thesis by simp
  next
    case out
    then have "\<not> ?ex" using fav_pokemon_id_range by blast
    with delete_fav_pokemon_overflow [OF u out] show ?thesis by simp
  qed
next
  assume u: "current_user req s = Inr u"
  let ?ex = "\<exists>f\<in>set (favorites s). fav_user_id f = u \<and> fav_pokemon_id f = Some k"
  consider (present) ?ex | (absent) "\<not> ?ex" "in_store_range k" | (out) "\<not> in_store_range k"
    by blast
  then show "(fst (delete_fav_pokemon req k s) = Inl (APIException pokemon_not_fav_msg 404))
         = (in_store_range k \<and> \<not> ?ex)"
  proof cases
    case present
    from delete_fav_pokemon_present [OF u present] present show ?thesis by auto
  next
    case absent
    from delete_fav_pokemon_absent [OF u absent(2) absent(1)] absent show ?thesis by simp
  next
    case out
    with delete_fav_pokemon_overflow [OF u out] show ?thesis by simp
  qed
next
  assume "current_user req s = Inr u"
    and "in_store_range k
      \<and> \<not> (\<exists>f\<in>set (favorites s). fav_user_id f = u \<and> fav_pokemon_id f = Some k)"
  then show "delete_fav_pokemon req k s = (Inl (APIException pokemon_not_fav_msg 404), s)"
    by (simp add: delete_fav_pokemon_absent)
next
  assume "current_user req s = Inr u" and "\<not> in_store_range k"
  then show "delete_fav_pokemon req k s = (Inl OverflowError, s)"
    by (rule delete_fav_pokemon_overflow)
next
  assume u: "current_user req s = Inr u"
    and ex: "\<exists>f\<in>set (favorites s). fav_user_id f = u \<and> fav_pokemon_id f = Some k"
  from delete_fav_pokemon_present [OF u ex] obtain f where
    f: "f \<in> set (favorites s)" "fav_user_id f = u" "fav_pokemon_id f = Some k"
    and d: "delete_fav_pokemon req k s
               = (Inr (JObj [(''msg'', JStr pokemon_deleted_msg)], 200),
                  s\<lparr>favorites := session_delete f (favorites s)\<rparr>)"
    by blast
  have "distinct (map fav_id (favorites s)) \<longrightarrow>
          favorites (snd (delete_fav_pokemon req k s)) = remove1 f (favorites s)"
    using d f(1) by (simp add: session_delete_remove1)
  with f d show "\<exists>f\<in>set (favorites s). fav_user_id f = u \<and> fav_pokemon_id f = Some k
              \<and> delete_fav_pokemon req k s
                  = (Inr (JObj [(''msg'', JStr pokemon_deleted_msg)], 200),
                     s\<lparr>favorites := filter (\<lambda>g. fav_id g \<noteq> fav_id f) (favorites s)\<rparr>)
              \<and> (distinct (map fav_id (favorites s)) \<longrightarrow>
                   favorites (snd (delete_fav_pokemon req k s)) = remove1 f (favorites s))"
    unfolding session_delete_def by blast
next
  assume u: "current_user req s = Inr u"
  let ?ex = "\<exists>f\<in>set (favorites s). fav_user_id f = u \<and> fav_region_id f = Some k"
  consider (present) ?ex | (absent) "\<not> ?ex" "in_store_range k" | (out) "\<not> in_store_range k"
    by blast
  then show "(\<exists>e. fst (delete_fav_region req k s) = Inl e) = (\<not> ?ex)"
  proof cases
    case present
    from delete_fav_region_present [OF u present] present show ?thesis by auto
  next
    case absent
    from delete_fav_region_absent [OF u absent(2) absent(1)] absent show ?thesis by simp
  next
    case out
    then have "\<not> ?ex" using fav_region_id_range by blast
    with delete_fav_region_overflow [OF u out] show ?thesis by simp
  qed
next
  assume u: "current_user req s = Inr u"
  let ?ex = "\<exists>f\<in>set (favorites s). fav_user_id f = u \<and> fav_region_id f = Some k"
  consider (present) ?ex | (absent) "\<not> ?ex" "in_store_range k" | (out) "\<not> in_store_range k"
    by blast
  then show "(fst (delete_fav_region req k s) = Inl (APIException region_not_fav_msg 404))
         = (in_store_range k \<and> \<not> ?ex)"
  proof cases
    case present
    from delete_fav_region_present [OF u present] present show ?thesis by auto
  next
    case absent
    from delete_fav_region_absent [OF u absent(2) absent(1)] absent show ?thesis by simp
  next
    case out
    with delete_fav_region_overflow [OF u out] show ?thesis by simp
  qed
next
  assume "current_user req s = Inr u"
    and "in_store_range k
      \<and> \<not> (\<exists>f\<in>set (favorites s). fav_user_id f = u \<and> fav_region_id f = Some k)"
  then show "delete_fav_region req k s = (Inl (APIException region_not_fav_msg 404), s)"
    by (simp add: delete_fav_region_absent)
next
  assume "current_user req s = Inr u" and "\<not> in_store_range k"
  then show "delete_fav_region req k s = (Inl OverflowError, s)"
    by (rule delete_fav_region_overflow)
next
  assume u: "current_user req s = Inr u"
    and ex: "\<exists>f\<in>set (favorites s). fav_user_id f = u \<and> fav_region_id f = Some k"
  from delete_fav_region_present [OF u ex] obtain f where
    f: "f \<in> set (favorites s)" "fav_user_id f = u" "fav_region_id f = Some k"
    and d: "delete_fav_region req k s
               = (Inr (JObj [(''msg'', JStr region_deleted_msg)], 200),
                  s\<lparr>favorites := session_delete f (favorites s)\<rparr>)"
    by blast
  have "distinct (map fav_id (favorites s)) \<longrightarrow>
          favorites (snd (delete_fav_region req k s)) = remove1 f (favorites s)"
    using d f(1) by (simp add: session_delete_remove1)
  with f d show "\<exists>f\<in>set (favorites s). fav_user_id f = u \<and> fav_region_id f = Some k
              \<and> delete_fav_region req k s
                  = (Inr (JObj [(''msg'', JStr region_deleted_msg)], 200),
                     s\<lparr>favorites := filter (\<lambda>g. fav_id g \<noteq> fav_id f) (favorites s)\<rparr>)
              \<and> (distinct (map fav_id (favorites s)) \<longrightarrow>
                   favorites (snd (delete_fav_region req k s)) = remove1 f (favorites s))"
    unfolding session_delete_def by blast
qed

text \<open>
  In the example store user 1 has Pokemon 3 and Region 7 as favorites, and neither
  Pokemon 0 nor Region 0; 9223372036854775808 is outside the store's range.
\<close>

theorem C3_delete_favorite_witness:
  "current_user (request_of (Some ''1'') None) example_store_favs = Inr 1
   \<and> distinct (map fav_id (favorites example_store_favs))
   \<and> (\<exists>f\<in>set (favorites example_store_favs). fav_user_id f = 1 \<and> fav_pokemon_id f = Some 3)
   \<and> \<not> (\<exists>e. fst (delete_fav_pokemon (request_of (Some ''1'') None) 3 example_store_favs) = Inl e)
   \<and> favorites (snd (delete_fav_pokemon (request_of (Some ''1'') None) 3 example_store_favs))
       = [Favorite_row 2 1 None (Some 7), Favorite_row 4 2 (Some 0) None]
   \<and> in_store_range 0
   \<and> \<not> (\<exists>f\<in>set (favorites example_store_favs). fav_user_id f = 1 \<and> fav_pokemon_id f = Some 0)
   \<and> delete_fav_pokemon (request_of (Some ''1'') None) 0 example_store_favs
       = (Inl (APIException pokemon_not_fav_msg 404), example_store_favs)
   \<and> (\<exists>f\<in>set (favorites example_store_favs). fav_user_id f = 1 \<and> fav_region_id f = Some 7)
   \<and> \<not> (\<exists>e. fst (delete_fav_region (request_of (Some ''1'') None) 7 example_store_favs) = Inl e)
   \<and> favorites (snd (delete_fav_region (request_of (Some ''1'') None) 7 example_store_favs))
       = [Favorite_row 5 1 (Some 3) None, Favorite_row 4 2 (Some 0) None]
   \<and> \<not> (\<exists>f\<in>set (favorites example_store_favs). fav_user_id f = 1 \<and> fav_region_id f = Some 0)
   \<and> delete_fav_region (request_of (Some ''1'') None) 0 example_store_favs
       = (Inl (APIException region_not_fav_msg 404), example_store_favs)
   \<and> \<not> in_store_range 9223372036854775808
   \<and> delete_fav_pokemon (request_of (Some ''1'') None) 9223372036854775808 example_store_favs
       = (Inl OverflowError, example_store_favs)
   \<and> delete_fav_region (request_of (Some ''1'') None) 9223372036854775808 example_store_favs
       = (Inl OverflowError, example_store_favs)"
proof -
  let ?R = "request_of (Some ''1'') None"
  let ?S = "example_store_favs"
  have h: "current_user ?R ?S = Inr 1"
    by (simp add: resolver_defs query_defs example_defs accessor_defs)
  have d: "distinct (map fav_id (favorites ?S))"
    by (simp add: example_defs accessor_defs)
  have p3: "\<exists>f\<in>set (favorites ?S). fav_user_id f = 1 \<and> fav_pokemon_id f = Some 3"
    by (simp add: example_defs accessor_defs)
  have p0: "\<not> (\<exists>f\<in>set (favorites ?S). fav_user_id f = 1 \<and> fav_pokemon_id f = Some 0)"
    by (simp add: example_defs accessor_defs)
  have r7: "\<exists>f\<in>set (favorites ?S). fav_user_id f = 1 \<and> fav_region_id f = Some 7"
    by (simp add: example_defs accessor_defs)
  have r0: "\<not> (\<exists>f\<in>set (favorites ?S). fav_user_id f = 1 \<and> fav_region_id f = Some 0)"
    by (simp add: example_defs accessor_defs)
  have i0: "in_store_range 0" and big: "\<not> in_store_range 9223372036854775808"
    by (simp_all add: in_store_range_def)
  have vp: "favorites (snd (delete_fav_pokemon ?R 3 ?S))
       = [Favorite_row 2 1 None (Some 7), Favorite_row 4 2 (Some 0) None]"
    unfolding delete_fav_pokemon_def h by (simp add: query_defs example_defs accessor_defs)
  have vr: "favorites (snd (delete_fav_region ?R 7 ?S))
       = [Favorite_row 5 1 (Some 3) None, Favorite_row 4 2 (Some 0) None]"
    unfolding delete_fav_region_def h by (simp add: query_defs example_defs accessor_defs)
  from C3_delete_favorite [of ?R ?S 1 0] h i0 p0 r0
  have a0: "delete_fav_pokemon ?R 0 ?S = (Inl (APIException pokemon_not_fav_msg 404), ?S)"
    and b0: "delete_fav_region ?R 0 ?S = (Inl (APIException region_not_fav_msg 404), ?S)"
    by blast+
  from C3_delete_favorite [of ?R ?S 1 3] h p3
  have a3: "\<not> (\<exists>e. fst (delete_fav_pokemon ?R 3 ?S) = Inl e)"
    by blast
  from C3_delete_favorite [of ?R ?S 1 7] h r7
  have b7: "\<not> (\<exists>e. fst (delete_fav_region ?R 7 ?S) = Inl e)"
    by blast
  from C3_delete_favorite [of ?R ?S 1 9223372036854775808] h big
  have ao: "delete_fav_pokemon ?R 9223372036854775808 ?S = (Inl OverflowError, ?S)"
    and bo: "delete_fav_region ?R 9223372036854775808 ?S = (Inl OverflowError, ?S)"
    by blast+
  from h d p3 a3 vp i0 p0 a0 r7 b7 vr r0 b0 big ao bo show ?thesis
    by (intro conjI)
qed

section \<open>One target per favorite\<close>

text \<open>
  Claim C2. If every row of the favorites table has exactly one of \<open>pokemon_id\<close> and
  \<open>region_id\<close> set, then so has every row after any finite sequence of add-Pokemon,
  add-Region, delete-Pokemon and delete-Region requests, whatever their outcome; in
  particular no row has both set.
\<close>

theorem C2_one_target_invariant:
  "(\<forall>f\<in>set (favorites s). one_target f) \<longrightarrow>
     (\<forall>f\<in>set (favorites (run ops s)).
        one_target f \<and> \<not> (fav_pokemon_id f \<noteq> None \<and> fav_region_id f \<noteq> None))"
proof
  assume "\<forall>f\<in>set (favorites s). one_target f"
  then have "\<forall>f\<in>set (favorites (run ops s)). one_target f"
    by (rule run_one_target)
  then show "\<forall>f\<in>set (favorites (run ops s)).
        one_target f \<and> \<not> (fav_pokemon_id f \<noteq> None \<and> fav_region_id f \<noteq> None)"
    by (auto simp: one_target_def)
qed

text \<open>
  Five requests on the example store: two additions, a deletion, a failing deletion and a
  repeated addition by the fallback user.
\<close>

theorem C2_one_target_invariant_witness:
  "list_all one_target (favorites example_store_favs)
   \<and> favorites (run [(AddPokemon 0, request_of (Some ''1'') None),
            (AddRegion 7, request_of None (Some ''2'')),
            (DeletePokemon 3, request_of (Some ''1'') None),
            (DeleteRegion 0, request_of (Some ''1'') None),
            (AddPokemon 0, request_of None None)] example_store_favs)
     = [Favorite_row 2 1 None (Some 7),
        Favorite_row 4 2 (Some 0) None,
        Favorite_row 6 1 (Some 0) None,
        Favorite_row 7 2 None (Some 7)]
   \<and> list_all (\<lambda>f. one_target f \<and> \<not> (fav_pokemon_id f \<noteq> None \<and> fav_region_id f \<noteq> None))
        (favorites (run [(AddPokemon 0, request_of (Some ''1'') None),
            (AddRegion 7, request_of None (Some ''2'')),
            (DeletePokemon 3, request_of (Some ''1'') None),
            (DeleteRegion 0, request_of (Some ''1'') None),
            (AddPokemon 0, request_of None None)] example_store_favs))"
proof -
  let ?ops = "[(AddPokemon 0, request_of (Some ''1'') None),
            (AddRegion 7, request_of None (Some ''2'')),
            (DeletePokemon 3, request_of (Some ''1'') None),
            (DeleteRegion 0, request_of (Some ''1'') None),
            (AddPokemon 0, request_of None None)]"
  have h: "\<forall>f\<in>set (favorites example_store_favs). one_target f"
    by (simp add: example_defs one_target_def accessor_defs)
  have v: "favorites (run ?ops example_store_favs)
     = [Favorite_row 2 1 None (Some 7),
        Favorite_row 4 2 (Some 0) None,
        Favorite_row 6 1 (Some 0) None,
        Favorite_row 7 2 None (Some 7)]"
    by (simp add: add_fav_pokemon_def add_fav_region_def delete_fav_pokemon_def
        delete_fav_region_def resolver_defs query_defs example_defs accessor_defs Let_def)
  from C2_one_target_invariant [of example_store_favs ?ops] h
  have c: "\<forall>f\<in>set (favorites (run ?ops example_store_favs)).
        one_target f \<and> \<not> (fav_pokemon_id f \<noteq> None \<and> fav_region_id f \<noteq> None)"
    by (rule mp)
  from h c v show ?thesis
    unfolding list_all_iff by (intro conjI)
qed

section \<open>Creating a Pokemon favorite\<close>

lemma favorite_serialize_fields:
  "jget (JObj (Favorite_serialize f)) ''id'' = Some (JInt (fav_id f))"
  "jget (JObj (Favorite_serialize f)) ''user_id'' = Some (JInt (fav_user_id f))"
  "jget (JObj (Favorite_serialize f)) ''pokemon_id'' = Some (json_opt_int (fav_pokemon_id f))"
  "jget (JObj (Favorite_serialize f)) ''region_id'' = Some (json_opt_int (fav_region_id f))"
  by (simp_all add: Favorite_serialize_def)

lemma current_user_missing:
  assumes "get_current_user_id req s = Inr u" and "in_store_range u"
    and "\<not> (\<exists>x\<in>set (users s). u_id x = u)"
  shows "current_user req s = Inl (APIException (''User '' @ str_int u @ '' no existe.'') 404)"
proof -
  from assms(2,3) have "query_get u_id (users s) u = Inr None" by (simp add: query_get_None)
  with assms(1) show ?thesis by (simp add: current_user_def ensure_user_exists_def)
qed

lemma current_user_overflow:
  assumes "get_current_user_id req s = Inr u" and "\<not> in_store_range u"
  shows "current_user req s = Inl OverflowError"
  using assms by (simp add: current_user_def ensure_user_exists_def query_get_overflow)

text \<open>
  Claim C6, as stated: if the Pokemon or the user does not exist, the request fails with a
  404 error. It fails for the identifier 9223372036854775808: no user has it, and the
  resolver returns it for \<^verbatim>\<open>?user_id=9223372036854775808\<close>, but the store cannot take it as a
  parameter and the request fails with \<^verbatim>\<open>OverflowError\<close>; the same happens for user 1 and
  a Pokemon of that identifier.
\<close>

theorem C6_out_of_range_counterexample:
  "get_current_user_id (request_of (Some ''9223372036854775808'') None) example_store
     = Inr 9223372036854775808
   \<and> 9223372036854775808 \<notin> u_id ` set (users example_store)
   \<and> add_fav_pokemon (request_of (Some ''9223372036854775808'') None) 3 example_store
       = (Inl OverflowError, example_store)
   \<and> current_user (request_of (Some ''1'') None) example_store = Inr 1
   \<and> 9223372036854775808 \<notin> p_id ` set (pokemons example_store)
   \<and> add_fav_pokemon (request_of (Some ''1'') None) 9223372036854775808 example_store
       = (Inl OverflowError, example_store)"
proof -
  have g: "get_current_user_id (request_of (Some ''9223372036854775808'') None) example_store
     = Inr 9223372036854775808"
    by (simp add: resolver_defs query_defs example_defs accessor_defs)
  then have c: "current_user (request_of (Some ''9223372036854775808'') None) example_store
     = Inl OverflowError"
    by (simp add: current_user_def ensure_user_exists_def query_get_def in_store_range_def)
  have h: "current_user (request_of (Some ''1'') None) example_store = Inr 1"
    by (simp add: resolver_defs query_defs example_defs accessor_defs)
  have n: "9223372036854775808 \<notin> u_id ` set (users example_store)"
    "9223372036854775808 \<notin> p_id ` set (pokemons example_store)"
    by (simp_all add: example_defs accessor_defs)
  have a: "add_fav_pokemon (request_of (Some ''9223372036854775808'') None) 3 example_store
       = (Inl OverflowError, example_store)"
    unfolding add_fav_pokemon_def c by simp
  have b: "add_fav_pokemon (request_of (Some ''1'') None) 9223372036854775808 example_store
       = (Inl OverflowError, example_store)"
    unfolding add_fav_pokemon_def h by (simp add: query_get_def in_store_range_def)
  from g n a h b show ?thesis by (intro conjI)
qed

text \<open>
  Claim C6, amended. When the resolved user exists, the Pokemon exists and the favorites
  table has no row for the pair, \<^verbatim>\<open>POST /favorite/pokemon/{id}\<close> appends one row for that user
  and Pokemon with no Region, and answers 201 with that row, whose body shows \<open>pokemon_id\<close>,
  a null \<open>region_id\<close> and \<open>user_id\<close>. When the resolver returns an id within the store's
  integer range and that user does not exist, or the user exists and the Pokemon id is
  within the range and that Pokemon does not exist, the request raises a 404 exception.
  When the resolved id is outside the range, or the user exists and the Pokemon id is
  outside the range, the request fails with \<^verbatim>\<open>OverflowError\<close>. In every failure the store
  stays as it was.
\<close>

theorem C6_add_pokemon_created:
  "(current_user req s = Inr u \<and> (\<exists>p\<in>set (pokemons s). p_id p = k)
      \<and> \<not> (\<exists>f\<in>set (favorites s). fav_user_id f = u \<and> fav_pokemon_id f = Some k)
    \<longrightarrow> (\<exists>fav body. add_fav_pokemon req k s
                       = (Inr (body, 201), s\<lparr>favorites := favorites s @ [fav]\<rparr>)
            \<and> body = JObj (Favorite_serialize fav)
            \<and> fav_user_id fav = u \<and> fav_pokemon_id fav = Some k \<and> fav_region_id fav = None
            \<and> jget body ''pokemon_id'' = Some (JInt k)
            \<and> jget body ''region_id'' = Some JNull
            \<and> jget body ''user_id'' = Some (JInt u)))
   \<and> (get_current_user_id req s = Inr u \<and> in_store_range u
        \<and> (\<not> (\<exists>x\<in>set (users s). u_id x = u)
           \<or> in_store_range k \<and> \<not> (\<exists>p\<in>set (pokemons s). p_id p = k))
      \<longrightarrow> (\<exists>msg. add_fav_pokemon req k s = (Inl (APIException msg 404), s)))
   \<and> (get_current_user_id req s = Inr u
        \<and> (\<not> in_store_range u \<or> (\<exists>x\<in>set (users s). u_id x = u) \<and> \<not> in_store_range k)
      \<longrightarrow> add_fav_pokemon req k s = (Inl OverflowError, s))"
proof (intro conjI impI)
  assume a: "current_user req s = Inr u \<and> (\<exists>p\<in>set (pokemons s). p_id p = k)
      \<and> \<not> (\<exists>f\<in>set (favorites s). fav_user_id f = u \<and> fav_pokemon_id f = Some k)"
  let ?fav = "Favorite_row (new_id (favorites s)) u (Some k) None"
  from a have u: "in_store_range u" using current_user_range by blast
  from a have k: "in_store_range k" using p_id_range by auto
  from a have "add_fav_pokemon req k s
      = (Inr (JObj (Favorite_serialize ?fav), 201), s\<lparr>favorites := favorites s @ [?fav]\<rparr>)"
    by (simp add: add_fav_pokemon_new)
  moreover have f: "fav_user_id ?fav = u" "fav_pokemon_id ?fav = Some k"
    "fav_region_id ?fav = None"
    using u k by (simp_all add: Favorite_row_user Favorite_row_pokemon Favorite_row_region)
  moreover have "jget (JObj (Favorite_serialize ?fav)) ''pokemon_id'' = Some (JInt k)"
    "jget (JObj (Favorite_serialize ?fav)) ''region_id'' = Some JNull"
    "jget (JObj (Favorite_serialize ?fav)) ''user_id'' = Some (JInt u)"
    using favorite_serialize_fields [of ?fav] f by (simp_all add: json_opt_int_def)
  ultimately show "\<exists>fav body. add_fav_pokemon req k s
                       = (Inr (body, 201), s\<lparr>favorites := favorites s @ [fav]\<rparr>)
            \<and> body = JObj (Favorite_serialize fav)
            \<and> fav_user_id fav = u \<and> fav_pokemon_id fav = Some k \<and> fav_region_id fav = None
            \<and> jget body ''pokemon_id'' = Some (JInt k)
            \<and> jget body ''region_id'' = Some JNull
            \<and> jget body ''user_id'' = Some (JInt u)"
    by (intro exI [of _ ?fav] exI [of _ "JObj (Favorite_serialize ?fav)"]) simp
next
  assume a: "get_current_user_id req s = Inr u \<and> in_store_range u
        \<and> (\<not> (\<exists>x\<in>set (users s). u_id x = u)
           \<or> in_store_range k \<and> \<not> (\<exists>p\<in>set (pokemons s). p_id p = k))"
  show "\<exists>msg. add_fav_pokemon req k s = (Inl (APIException msg 404), s)"
  proof (cases "\<exists>x\<in>set (users s). u_id x = u")
    case False
    with a have "current_user req s
        = Inl (APIException (''User '' @ str_int u @ '' no existe.'') 404)"
      by (simp add: current_user_missing)
    then show ?thesis by (simp add: add_fav_pokemon_def)
  next
    case True
    with a have u: "current_user req s = Inr u" by (simp add: current_user_Inr)
    from a True have "query_get p_id (pokemons s) k = Inr None" by (simp add: query_get_None)
    with u show ?thesis by (simp add: add_fav_pokemon_def)
  qed
next
  assume a: "get_current_user_id req s = Inr u
        \<and> (\<not> in_store_range u \<or> (\<exists>x\<in>set (users s). u_id x = u) \<and> \<not> in_store_range k)"
  show "add_fav_pokemon req k s = (Inl OverflowError, s)"
  proof (cases "in_store_range u")
    case False
    with a have "current_user req s = Inl OverflowError" by (simp add: current_user_overflow)
    then show ?thesis by (simp add: add_fav_pokemon_def)
  next
    case True
    with a have u: "current_user req s = Inr u" and k: "\<not> in_store_range k"
      by (simp_all add: current_user_Inr)
    then show ?thesis by (simp add: add_fav_pokemon_def query_get_overflow)
  qed
qed

text \<open>
  The scenario of the spec: user 1 adds Pokemon 3 to an empty favorites table. User 5 and
  Pokemon 4 do not exist; 9223372036854775808 is outside the store's range.
\<close>

theorem C6_add_pokemon_created_witness:
  "current_user (request_of (Some ''1'') None) example_store = Inr 1
   \<and> (\<exists>p\<in>set (pokemons example_store). p_id p = 3)
   \<and> \<not> (\<exists>f\<in>set (favorites example_store). fav_user_id f = 1 \<and> fav_pokemon_id f = Some 3)
   \<and> add_fav_pokemon (request_of (Some ''1'') None) 3 example_store
       = (Inr (JObj [(''id'', JInt 1), (''user_id'', JInt 1), (''pokemon_id'', JInt 3),
                     (''region_id'', JNull)], 201),
          example_store\<lparr>favorites := [Favorite_row 1 1 (Some 3) None]\<rparr>)
   \<and> get_current_user_id (request_of (Some ''5'') None) example_store = Inr 5
   \<and> in_store_range 5
   \<and> \<not> (\<exists>x\<in>set (users example_store). u_id x = 5)
   \<and> (\<exists>msg. add_fav_pokemon (request_of (Some ''5'') None) 3 example_store
              = (Inl (APIException msg 404), example_store))
   \<and> get_current_user_id (request_of (Some ''1'') None) example_store = Inr 1
   \<and> in_store_range 1 \<and> in_store_range 4
   \<and> \<not> (\<exists>p\<in>set (pokemons example_store). p_id p = 4)
   \<and> (\<exists>msg. add_fav_pokemon (request_of (Some ''1'') None) 4 example_store
              = (Inl (APIException msg 404), example_store))
   \<and> get_current_user_id (request_of (Some ''9223372036854775808'') None) example_store
       = Inr 9223372036854775808
   \<and> \<not> in_store_range 9223372036854775808
   \<and> add_fav_pokemon (request_of (Some ''9223372036854775808'') None) 3 example_store
       = (Inl OverflowError, example_store)
   \<and> (\<exists>x\<in>set (users example_store). u_id x = 1)
   \<and> add_fav_pokemon (request_of (Some ''1'') None) 9223372036854775808 example_store
       = (Inl OverflowError, example_store)"
proof -
  let ?R1 = "request_of (Some ''1'') None"
  let ?R5 = "request_of (Some ''5'') None"
  let ?RB = "request_of (Some ''9223372036854775808'') None"
  have h1: "current_user ?R1 example_store = Inr 1"
    by (simp add: resolver_defs query_defs example_defs accessor_defs)
  have g1: "get_current_user_id ?R1 example_store = Inr 1"
    by (simp add: resolver_defs query_defs example_defs accessor_defs)
  have g5: "get_current_user_id ?R5 example_store = Inr 5"
    by (simp add: resolver_defs query_defs example_defs accessor_defs)
  have gb: "get_current_user_id ?RB example_store = Inr 9223372036854775808"
    by (simp add: resolver_defs query_defs example_defs accessor_defs)
  have rng: "in_store_range 1" "in_store_range 4" "in_store_range 5"
    and big: "\<not> in_store_range 9223372036854775808"
    by (simp_all add: in_store_range_def)
  have p3: "\<exists>p\<in>set (pokemons example_store). p_id p = 3"
    by (simp add: example_defs accessor_defs)
  have p4: "\<not> (\<exists>p\<in>set (pokemons example_store). p_id p = 4)"
    by (simp add: example_defs accessor_defs)
  have u1: "\<exists>x\<in>set (users example_store). u_id x = 1"
    by (simp add: example_defs accessor_defs)
  have u5: "\<not> (\<exists>x\<in>set (users example_store). u_id x = 5)"
    by (simp add: example_defs accessor_defs)
  have f3: "\<not> (\<exists>f\<in>set (favorites example_store). fav_user_id f = 1 \<and> fav_pokemon_id f = Some 3)"
    by (simp add: example_defs)
  have v: "add_fav_pokemon ?R1 3 example_store
       = (Inr (JObj [(''id'', JInt 1), (''user_id'', JInt 1), (''pokemon_id'', JInt 3),
                     (''region_id'', JNull)], 201),
          example_store\<lparr>favorites := [Favorite_row 1 1 (Some 3) None]\<rparr>)"
    unfolding add_fav_pokemon_def h1
    by (simp add: query_defs example_defs accessor_defs Favorite_serialize_def
        json_opt_int_def Let_def)
  from C6_add_pokemon_created [of ?R5 example_store 5 3] g5 rng(3) u5
  have e5: "\<exists>msg. add_fav_pokemon ?R5 3 example_store = (Inl (APIException msg 404), example_store)"
    by blast
  from C6_add_pokemon_created [of ?R1 example_store 1 4] g1 rng(1,2) p4
  have e4: "\<exists>msg. add_fav_pokemon ?R1 4 example_store = (Inl (APIException msg 404), example_store)"
    by blast
  from C6_add_pokemon_created [of ?RB example_store 9223372036854775808 3] gb big
  have ob: "add_fav_pokemon ?RB 3 example_store = (Inl OverflowError, example_store)"
    by blast
  from C6_add_pokemon_created [of ?R1 example_store 1 9223372036854775808] g1 u1 big
  have ok: "add_fav_pokemon ?R1 9223372036854775808 example_store
      = (Inl OverflowError, example_store)"
    by blast
  from h1 p3 f3 v g5 rng(3) u5 e5 g1 rng(1,2) p4 e4 gb big ob u1 ok show ?thesis
    by (intro conjI)
qed

section \<open>Adding a favorite twice\<close>

lemma filter_none: "\<not> (\<exists>x\<in>set xs. P x) \<Longrightarrow> filter P xs = []"
  by (induction xs) auto

lemma add_fav_pokemon_twice:
  assumes u: "current_user req s = Inr u"
    and p: "\<exists>p\<in>set (pokemons s). p_id p = k"
    and n: "\<not> (\<exists>f\<in>set (favorites s). fav_user_id f = u \<and> fav_pokemon_id f = Some k)"
  defines "fav \<equiv> Favorite_row (new_id (favorites s)) u (Some k) None"
  shows "add_fav_pokemon req k s
           = (Inr (JObj (Favorite_serialize fav), 201), s\<lparr>favorites := favorites s @ [fav]\<rparr>)"
    and "add_fav_pokemon req k (snd (add_fav_pokemon req k s))
           = (Inr (JObj [(''msg'', JStr already_msg),
                         (''favorite'', JObj (Favorite_serialize fav))], 200),
              snd (add_fav_pokemon req k s))"
    and "filter (\<lambda>f. fav_user_id f = u \<and> fav_pokemon_id f = Some k)
           (favorites (snd (add_fav_pokemon req k (snd (add_fav_pokemon req k s))))) = [fav]"
    and "fav_user_id fav = u \<and> fav_pokemon_id fav = Some k"
proof -
  let ?s1 = "s\<lparr>favorites := favorites s @ [fav]\<rparr>"
  from p have k: "in_store_range k" using p_id_range by auto
  note ur = current_user_range [OF u]
  show fields: "fav_user_id fav = u \<and> fav_pokemon_id fav = Some k"
    using ur k by (simp add: fav_def Favorite_row_user Favorite_row_pokemon)
  show first_call: "add_fav_pokemon req k s = (Inr (JObj (Favorite_serialize fav), 201), ?s1)"
    unfolding fav_def by (rule add_fav_pokemon_new [OF u p n])
  have u1: "current_user req ?s1 = Inr u"
    by (simp add: current_user_favorites_update u)
  from query_get_present [OF p k] obtain row where
    row: "query_get p_id (pokemons ?s1) k = Inr (Some row)" by auto
  have f0: "filter (\<lambda>f. fav_user_id f = u \<and> fav_pokemon_id f = Some k) (favorites s) = []"
    using n by (rule filter_none)
  with fields
  have f1: "filter (\<lambda>f. fav_user_id f = u \<and> fav_pokemon_id f = Some k) (favorites ?s1) = [fav]"
    by simp
  then have "first (filter (\<lambda>f. fav_user_id f = u \<and> fav_pokemon_id f = Some k)
      (favorites ?s1)) = Some fav"
    by (simp add: first_def)
  with u1 row have second_call: "add_fav_pokemon req k ?s1
      = (Inr (JObj [(''msg'', JStr already_msg),
                    (''favorite'', JObj (Favorite_serialize fav))], 200), ?s1)"
    by (simp add: add_fav_pokemon_def filter_by_user_pokemon_range [OF ur k]
        del: filter_append)
  with first_call show "add_fav_pokemon req k (snd (add_fav_pokemon req k s))
           = (Inr (JObj [(''msg'', JStr already_msg),
                         (''favorite'', JObj (Favorite_serialize fav))], 200),
              snd (add_fav_pokemon req k s))"
    by simp
  from first_call second_call f1
  show "filter (\<lambda>f. fav_user_id f = u \<and> fav_pokemon_id f = Some k)
           (favorites (snd (add_fav_pokemon req k (snd (add_fav_pokemon req k s))))) = [fav]"
    by simp
qed

lemma add_fav_region_twice:
  assumes u: "current_user req s = Inr u"
    and p: "\<exists>r\<in>set (regions s). r_id r = k"
    and n: "\<not> (\<exists>f\<in>set (favorites s). fav_user_id f = u \<and> fav_region_id f = Some k)"
  defines "fav \<equiv> Favorite_row (new_id (favorites s)) u None (Some k)"
  shows "add_fav_region req k s
           = (Inr (JObj (Favorite_serialize fav), 201), s\<lparr>favorites := favorites s @ [fav]\<rparr>)"
    and "add_fav_region req k (snd (add_fav_region req k s))
           = (Inr (JObj [(''msg'', JStr already_msg),
                         (''favorite'', JObj (Favorite_serialize fav))], 200),
              snd (add_fav_region req k s))"
    and "filter (\<lambda>f. fav_user_id f = u \<and> fav_region_id f = Some k)
           (favorites (snd (add_fav_region req k (snd (add_fav_region req k s))))) = [fav]"
    and "fav_user_id fav = u \<and> fav_region_id fav = Some k"
proof -
  let ?s1 = "s\<lparr>favorites := favorites s @ [fav]\<rparr>"
  from p have k: "in_store_range k" using r_id_range by auto
  note ur = current_user_range [OF u]
  show fields: "fav_user_id fav = u \<and> fav_region_id fav = Some k"
    using ur k by (simp add: fav_def Favorite_row_user Favorite_row_region)
  show first_call: "add_fav_region req k s = (Inr (JObj (Favorite_serialize fav), 201), ?s1)"
    unfolding fav_def by (rule add_fav_region_new [OF u p n])
  have u1: "current_user req ?s1 = Inr u"
    by (simp add: current_user_favorites_update u)
  from query_get_present [OF p k] obtain row where
    row: "query_get r_id (regions ?s1) k = Inr (Some row)" by auto
  have f0: "filter (\<lambda>f. fav_user_id f = u \<and> fav_region_id f = Some k) (favorites s) = []"
    using n by (rule filter_none)
  with fields
  have f1: "filter (\<lambda>f. fav_user_id f = u \<and> fav_region_id f = Some k) (favorites ?s1) = [fav]"
    by simp
  then have "first (filter (\<lambda>f. fav_user_id f = u \<and> fav_region_id f = Some k)
      (favorites ?s1)) = Some fav"
    by (simp add: first_def)
  with u1 row have second_call: "add_fav_region req k ?s1
      = (Inr (JObj [(''msg'', JStr already_msg),
                    (''favorite'', JObj (Favorite_serialize fav))], 200), ?s1)"
    by (simp add: add_fav_region_def filter_by_user_region_range [OF ur k]
        del: filter_append)
  with first_call show "add_fav_region req k (snd (add_fav_region req k s))
           = (Inr (JObj [(''msg'', JStr already_msg),
                         (''favorite'', JObj (Favorite_serialize fav))], 200),
              snd (add_fav_region req k s))"
    by simp
  from first_call second_call f1
  show "filter (\<lambda>f. fav_user_id f = u \<and> fav_region_id f = Some k)
           (favorites (snd (add_fav_region req k (snd (add_fav_region req k s))))) = [fav]"
    by simp
qed

text \<open>
  Claim C1. For a resolved, existing user and an existing Pokemon: if the favorites table
  has a row for the pair, \<^verbatim>\<open>POST /favorite/pokemon/{p}\<close> answers 200 with such a row and
  returns the store as it was; if it has none, the request appends exactly one row and
  answers 201 with it, a second identical request answers 200 with that same row and
  changes nothing, and the table then holds exactly that one row for the pair. The same
  holds for \<^verbatim>\<open>POST /favorite/region/{r}\<close> over the pair of user and Region.
\<close>

theorem C1_add_idempotent:
  "(current_user req s = Inr u \<and> (\<exists>p\<in>set (pokemons s). p_id p = k) \<longrightarrow>
      ((\<exists>f\<in>set (favorites s). fav_user_id f = u \<and> fav_pokemon_id f = Some k) \<longrightarrow>
         (\<exists>f\<in>set (favorites s). fav_user_id f = u \<and> fav_pokemon_id f = Some k
            \<and> add_fav_pokemon req k s
                = (Inr (JObj [(''msg'', JStr already_msg),
                              (''favorite'', JObj (Favorite_serialize f))], 200), s)))
      \<and> (\<not> (\<exists>f\<in>set (favorites s). fav_user_id f = u \<and> fav_pokemon_id f = Some k) \<longrightarrow>
         (\<exists>fav. fav_user_id fav = u \<and> fav_pokemon_id fav = Some k
            \<and> add_fav_pokemon req k s
                = (Inr (JObj (Favorite_serialize fav), 201),
                   s\<lparr>favorites := favorites s @ [fav]\<rparr>)
            \<and> add_fav_pokemon req k (snd (add_fav_pokemon req k s))
                = (Inr (JObj [(''msg'', JStr already_msg),
                              (''favorite'', JObj (Favorite_serialize fav))], 200),
                   snd (add_fav_pokemon req k s))
            \<and> filter (\<lambda>f. fav_user_id f = u \<and> fav_pokemon_id f = Some k)
                 (favorites (snd (add_fav_pokemon req k (snd (add_fav_pokemon req k s)))))
                = [fav])))
   \<and> (current_user req s = Inr u \<and> (\<exists>r\<in>set (regions s). r_id r = k) \<longrightarrow>
      ((\<exists>f\<in>set (favorites s). fav_user_id f = u \<and> fav_region_id f = Some k) \<longrightarrow>
         (\<exists>f\<in>set (favorites s). fav_user_id f = u \<and> fav_region_id f = Some k
            \<and> add_fav_region req k s
                = (Inr (JObj [(''msg'', JStr already_msg),
                              (''favorite'', JObj (Favorite_serialize f))], 200), s)))
      \<and> (\<not> (\<exists>f\<in>set (favorites s). fav_user_id f = u \<and> fav_region_id f = Some k) \<longrightarrow>
         (\<exists>fav. fav_user_id fav = u \<and> fav_region_id fav = Some k
            \<and> add_fav_region req k s
                = (Inr (JObj (Favorite_serialize fav), 201),
                   s\<lparr>favorites := favorites s @ [fav]\<rparr>)
            \<and> add_fav_region req k (snd (add_fav_region req k s))
                = (Inr (JObj [(''msg'', JStr already_msg),
                              (''favorite'', JObj (Favorite_serialize fav))], 200),
                   snd (add_fav_region req k s))
            \<and> filter (\<lambda>f. fav_user_id f = u \<and> fav_region_id f = Some k)
                 (favorites (snd (add_fav_region req k (snd (add_fav_region req k s)))))
                = [fav])))"
proof (intro conjI impI; (elim conjE)?)
  assume "current_user req s = Inr u" "\<exists>p\<in>set (pokemons s). p_id p = k"
    "\<exists>f\<in>set (favorites s). fav_user_id f = u \<and> fav_pokemon_id f = Some k"
  then show "\<exists>f\<in>set (favorites s). fav_user_id f = u \<and> fav_pokemon_id f = Some k
            \<and> add_fav_pokemon req k s
                = (Inr (JObj [(''msg'', JStr already_msg),
                              (''favorite'', JObj (Favorite_serialize f))], 200), s)"
    by (rule add_fav_pokemon_existing)
next
  assume a: "current_user req s = Inr u" "\<exists>p\<in>set (pokemons s). p_id p = k"
    "\<not> (\<exists>f\<in>set (favorites s). fav_user_id f = u \<and> fav_pokemon_id f = Some k)"
  let ?fav = "Favorite_row (new_id (favorites s)) u (Some k) None"
  from add_fav_pokemon_twice [OF a]
  show "\<exists>fav. fav_user_id fav = u \<and> fav_pokemon_id fav = Some k
            \<and> add_fav_pokemon req k s
                = (Inr (JObj (Favorite_serialize fav), 201),
                   s\<lparr>favorites := favorites s @ [fav]\<rparr>)
            \<and> add_fav_pokemon req k (snd (add_fav_pokemon req k s))
                = (Inr (JObj [(''msg'', JStr already_msg),
                              (''favorite'', JObj (Favorite_serialize fav))], 200),
                   snd (add_fav_pokemon req k s))
            \<and> filter (\<lambda>f. fav_user_id f = u \<and> fav_pokemon_id f = Some k)
                 (favorites (snd (add_fav_pokemon req k (snd (add_fav_pokemon req k s)))))
                = [fav]"
    by (intro exI [of _ ?fav]) simp
next
  assume "current_user req s = Inr u" "\<exists>r\<in>set (regions s). r_id r = k"
    "\<exists>f\<in>set (favorites s). fav_user_id f = u \<and> fav_region_id f = Some k"
  then show "\<exists>f\<in>set (favorites s). fav_user_id f = u \<and> fav_region_id f = Some k
            \<and> add_fav_region req k s
                = (Inr (JObj [(''msg'', JStr already_msg),
                              (''favorite'', JObj (Favorite_serialize f))], 200), s)"
    by (rule add_fav_region_existing)
next
  assume a: "current_user req s = Inr u" "\<exists>r\<in>set (regions s). r_id r = k"
    "\<not> (\<exists>f\<in>set (favorites s). fav_user_id f = u \<and> fav_region_id f = Some k)"
  let ?fav = "Favorite_row (new_id (favorites s)) u None (Some k)"
  from add_fav_region_twice [OF a]
  show "\<exists>fav. fav_user_id fav = u \<and> fav_region_id fav = Some k
            \<and> add_fav_region req k s
                = (Inr (JObj (Favorite_serialize fav), 201),
                   s\<lparr>favorites := favorites s @ [fav]\<rparr>)
            \<and> add_fav_region req k (snd (add_fav_region req k s))
                = (Inr (JObj [(''msg'', JStr already_msg),
                              (''favorite'', JObj (Favorite_serialize fav))], 200),
                   snd (add_fav_region req k s))
            \<and> filter (\<lambda>f. fav_user_id f = u \<and> fav_region_id f = Some k)
                 (favorites (snd (add_fav_region req k (snd (add_fav_region req k s)))))
                = [fav]"
    by (intro exI [of _ ?fav]) simp
qed

text \<open>
  In the example store user 1 already has Pokemon 3 (favorite 5) and Region 7
  (favorite 2), and has neither Pokemon 0 nor Region 0.
\<close>

theorem C1_add_idempotent_witness:
  "current_user (request_of (Some ''1'') None) example_store_favs = Inr 1
   \<and> (\<exists>p\<in>set (pokemons example_store_favs). p_id p = 3)
   \<and> (\<exists>f\<in>set (favorites example_store_favs). fav_user_id f = 1 \<and> fav_pokemon_id f = Some 3)
   \<and> add_fav_pokemon (request_of (Some ''1'') None) 3 example_store_favs
       = (Inr (JObj [(''msg'', JStr already_msg),
                     (''favorite'', JObj [(''id'', JInt 5), (''user_id'', JInt 1),
                                          (''pokemon_id'', JInt 3), (''region_id'', JNull)])],
               200), example_store_favs)
   \<and> (\<exists>p\<in>set (pokemons example_store_favs). p_id p = 0)
   \<and> \<not> (\<exists>f\<in>set (favorites example_store_favs). fav_user_id f = 1 \<and> fav_pokemon_id f = Some 0)
   \<and> (\<exists>fav. add_fav_pokemon (request_of (Some ''1'') None) 0 example_store_favs
               = (Inr (JObj (Favorite_serialize fav), 201),
                  example_store_favs\<lparr>favorites := favorites example_store_favs @ [fav]\<rparr>)
         \<and> add_fav_pokemon (request_of (Some ''1'') None) 0
               (snd (add_fav_pokemon (request_of (Some ''1'') None) 0 example_store_favs))
               = (Inr (JObj [(''msg'', JStr already_msg),
                             (''favorite'', JObj (Favorite_serialize fav))], 200),
                  snd (add_fav_pokemon (request_of (Some ''1'') None) 0 example_store_favs))
         \<and> filter (\<lambda>f. fav_user_id f = 1 \<and> fav_pokemon_id f = Some 0)
               (favorites (snd (add_fav_pokemon (request_of (Some ''1'') None) 0
                  (snd (add_fav_pokemon (request_of (Some ''1'') None) 0 example_store_favs)))))
             = [fav])
   \<and> (\<exists>r\<in>set (regions example_store_favs). r_id r = 7)
   \<and> (\<exists>f\<in>set (favorites example_store_favs). fav_user_id f = 1 \<and> fav_region_id f = Some 7)
   \<and> add_fav_region (request_of (Some ''1'') None) 7 example_store_favs
       = (Inr (JObj [(''msg'', JStr already_msg),
                     (''favorite'', JObj [(''id'', JInt 2), (''user_id'', JInt 1),
                                          (''pokemon_id'', JNull), (''region_id'', JInt 7)])],
               200), example_store_favs)
   \<and> (\<exists>r\<in>set (regions example_store_favs). r_id r = 0)
   \<and> \<not> (\<exists>f\<in>set (favorites example_store_favs). fav_user_id f = 1 \<and> fav_region_id f = Some 0)
   \<and> (\<exists>fav. add_fav_region (request_of (Some ''1'') None) 0 example_store_favs
               = (Inr (JObj (Favorite_serialize fav), 201),
                  example_store_favs\<lparr>favorites := favorites example_store_favs @ [fav]\<rparr>)
         \<and> add_fav_region (request_of (Some ''1'') None) 0
               (snd (add_fav_region (request_of (Some ''1'') None) 0 example_store_favs))
               = (Inr (JObj [(''msg'', JStr already_msg),
                             (''favorite'', JObj (Favorite_serialize fav))], 200),
                  snd (add_fav_region (request_of (Some ''1'') None) 0 example_store_favs))
         \<and> filter (\<lambda>f. fav_user_id f = 1 \<and> fav_region_id f = Some 0)
               (favorites (snd (add_fav_region (request_of (Some ''1'') None) 0
                  (snd (add_fav_region (request_of (Some ''1'') None) 0 example_store_favs)))))
             = [fav])"
proof -
  let ?R = "request_of (Some ''1'') None"
  let ?S = "example_store_favs"
  have h: "current_user ?R ?S = Inr 1"
    by (simp add: resolver_defs query_defs example_defs accessor_defs)
  have p3: "\<exists>p\<in>set (pokemons ?S). p_id p = 3" and p0: "\<exists>p\<in>set (pokemons ?S). p_id p = 0"
    and r7: "\<exists>r\<in>set (regions ?S). r_id r = 7" and r0: "\<exists>r\<in>set (regions ?S). r_id r = 0"
    by (simp_all add: example_defs accessor_defs)
  have fp3: "\<exists>f\<in>set (favorites ?S). fav_user_id f = 1 \<and> fav_pokemon_id f = Some 3"
    and fp0: "\<not> (\<exists>f\<in>set (favorites ?S). fav_user_id f = 1 \<and> fav_pokemon_id f = Some 0)"
    and fr7: "\<exists>f\<in>set (favorites ?S). fav_user_id f = 1 \<and> fav_region_id f = Some 7"
    and fr0: "\<not> (\<exists>f\<in>set (favorites ?S). fav_user_id f = 1 \<and> fav_region_id f = Some 0)"
    by (simp_all add: example_defs accessor_defs)
  have vp: "add_fav_pokemon ?R 3 ?S
       = (Inr (JObj [(''msg'', JStr already_msg),
                     (''favorite'', JObj [(''id'', JInt 5), (''user_id'', JInt 1),
                                          (''pokemon_id'', JInt 3), (''region_id'', JNull)])],
               200), ?S)"
    unfolding add_fav_pokemon_def h
    by (simp add: query_defs example_defs accessor_defs Favorite_serialize_def json_opt_int_def)
  have vr: "add_fav_region ?R 7 ?S
       = (Inr (JObj [(''msg'', JStr already_msg),
                     (''favorite'', JObj [(''id'', JInt 2), (''user_id'', JInt 1),
                                          (''pokemon_id'', JNull), (''region_id'', JInt 7)])],
               200), ?S)"
    unfolding add_fav_region_def h
    by (simp add: query_defs example_defs accessor_defs Favorite_serialize_def json_opt_int_def)
  from C1_add_idempotent [of ?R ?S 1 0] h p0 fp0
  have np: "\<exists>fav. add_fav_pokemon ?R 0 ?S
               = (Inr (JObj (Favorite_serialize fav), 201),
                  ?S\<lparr>favorites := favorites ?S @ [fav]\<rparr>)
         \<and> add_fav_pokemon ?R 0 (snd (add_fav_pokemon ?R 0 ?S))
               = (Inr (JObj [(''msg'', JStr already_msg),
                             (''favorite'', JObj (Favorite_serialize fav))], 200),
                  snd (add_fav_pokemon ?R 0 ?S))
         \<and> filter (\<lambda>f. fav_user_id f = 1 \<and> fav_pokemon_id f = Some 0)
               (favorites (snd (add_fav_pokemon ?R 0 (snd (add_fav_pokemon ?R 0 ?S)))))
             = [fav]"
    by blast
  from C1_add_idempotent [of ?R ?S 1 0] h r0 fr0
  have nr: "\<exists>fav. add_fav_region ?R 0 ?S
               = (Inr (JObj (Favorite_serialize fav), 201),
                  ?S\<lparr>favorites := favorites ?S @ [fav]\<rparr>)
         \<and> add_fav_region ?R 0 (snd (add_fav_region ?R 0 ?S))
               = (Inr (JObj [(''msg'', JStr already_msg),
                             (''favorite'', JObj (Favorite_serialize fav))], 200),
                  snd (add_fav_region ?R 0 ?S))
         \<and> filter (\<lambda>f. fav_user_id f = 1 \<and> fav_region_id f = Some 0)
               (favorites (snd (add_fav_region ?R 0 (snd (add_fav_region ?R 0 ?S)))))
             = [fav]"
    by blast
  from h p3 fp3 vp p0 fp0 np r7 fr7 vr r0 fr0 nr show ?thesis
    by (intro conjI)
qed

section \<open>Enrichment of the listed favorites\<close>

lemma map_of_dict_set:
  "map_of (dict_set d k v) k' = (if k' = k then Some v else map_of d k')"
  by (induction d) auto

lemma keys_dict_set: "fst ` set (dict_set d k v) = insert k (fst ` set d)"
  by (induction d k v rule: dict_set.induct) (simp_all add: insert_commute)

lemma keys_Favorite_serialize:
  "fst ` set (Favorite_serialize f) = {''id'', ''user_id'', ''pokemon_id'', ''region_id''}"
  by (auto simp: Favorite_serialize_def)

lemma map_of_Favorite_serialize_enrichment:
  "map_of (Favorite_serialize f) ''pokemon'' = None"
  "map_of (Favorite_serialize f) ''region'' = None"
  by (simp_all add: Favorite_serialize_def)

lemma favorite_item_pokemon:
  assumes "favorite_item serialize_p serialize_r s f = Inr item"
  shows "map_of item ''pokemon''
     = (if truthy_int (fav_pokemon_id f)
        then Some (case find (\<lambda>p. p_id p = the (fav_pokemon_id f)) (pokemons s) of
                     Some p \<Rightarrow> serialize_p p | None \<Rightarrow> JNull)
        else None)"
  using assms
  by (auto simp: favorite_item_def enrich_pokemon_eq enrich_region_eq map_of_dict_set
      map_of_Favorite_serialize_enrichment)

lemma favorite_item_region:
  assumes "favorite_item serialize_p serialize_r s f = Inr item"
  shows "map_of item ''region''
     = (if truthy_int (fav_region_id f)
        then Some (case find (\<lambda>r. r_id r = the (fav_region_id f)) (regions s) of
                     Some r \<Rightarrow> serialize_r r | None \<Rightarrow> JNull)
        else None)"
  using assms
  by (auto simp: favorite_item_def enrich_pokemon_eq enrich_region_eq map_of_dict_set
      map_of_Favorite_serialize_enrichment)

lemma favorite_item_keys:
  assumes "favorite_item serialize_p serialize_r s f = Inr item"
  shows "fst ` set item
     = {''id'', ''user_id'', ''pokemon_id'', ''region_id''}
       \<union> (if truthy_int (fav_pokemon_id f) then {''pokemon''} else {})
       \<union> (if truthy_int (fav_region_id f) then {''region''} else {})"
proof -
  define with_pokemon where "with_pokemon =
    (if truthy_int (fav_pokemon_id f)
     then dict_set (Favorite_serialize f) ''pokemon''
            (case find (\<lambda>p. p_id p = the (fav_pokemon_id f)) (pokemons s) of
               Some p \<Rightarrow> serialize_p p
             | None \<Rightarrow> JNull)
     else Favorite_serialize f)"
  have p: "fst ` set with_pokemon
     = {''id'', ''user_id'', ''pokemon_id'', ''region_id''}
       \<union> (if truthy_int (fav_pokemon_id f) then {''pokemon''} else {})"
    by (simp add: with_pokemon_def keys_dict_set keys_Favorite_serialize insert_commute)
  from assms have "item =
    (if truthy_int (fav_region_id f)
     then dict_set with_pokemon ''region''
            (case find (\<lambda>r. r_id r = the (fav_region_id f)) (regions s) of
               Some r \<Rightarrow> serialize_r r
             | None \<Rightarrow> JNull)
     else with_pokemon)"
    by (auto simp: favorite_item_def enrich_pokemon_eq enrich_region_eq with_pokemon_def)
  then have "fst ` set item
     = fst ` set with_pokemon \<union> (if truthy_int (fav_region_id f) then {''region''} else {})"
    by (simp add: keys_dict_set)
  with p show ?thesis by simp
qed

lemma truthy_int_iff: "truthy_int x \<longleftrightarrow> (\<exists>k. x = Some k \<and> k \<noteq> 0)"
  by (cases x) auto

text \<open>
  For a target other than 0 the item carries the serialization of the target, or null
  when the target is gone.
\<close>

lemma favorite_item_pokemon_nonzero:
  assumes "favorite_item serialize_p serialize_r s f = Inr item"
    and "fav_pokemon_id f = Some k" and "k \<noteq> 0"
  shows "(\<exists>p\<in>set (pokemons s). p_id p = k) \<longrightarrow>
           (\<exists>p\<in>set (pokemons s). p_id p = k \<and> jget (JObj item) ''pokemon'' = Some (serialize_p p))"
    and "\<not> (\<exists>p\<in>set (pokemons s). p_id p = k) \<longrightarrow> jget (JObj item) ''pokemon'' = Some JNull"
proof -
  from favorite_item_pokemon [OF assms(1)] assms(2,3)
  have field: "jget (JObj item) ''pokemon''
      = Some (case find (\<lambda>p. p_id p = k) (pokemons s) of
                Some p \<Rightarrow> serialize_p p | None \<Rightarrow> JNull)"
    by simp
  show "(\<exists>p\<in>set (pokemons s). p_id p = k) \<longrightarrow>
           (\<exists>p\<in>set (pokemons s). p_id p = k \<and> jget (JObj item) ''pokemon'' = Some (serialize_p p))"
  proof (cases "find (\<lambda>p. p_id p = k) (pokemons s)")
    case None
    then show ?thesis by (auto simp: find_None_iff)
  next
    case (Some p)
    then have "p \<in> set (pokemons s)" "p_id p = k" by (auto simp: find_Some_iff)
    with field Some show ?thesis by auto
  qed
  show "\<not> (\<exists>p\<in>set (pokemons s). p_id p = k) \<longrightarrow> jget (JObj item) ''pokemon'' = Some JNull"
  proof
    assume "\<not> (\<exists>p\<in>set (pokemons s). p_id p = k)"
    then have "find (\<lambda>p. p_id p = k) (pokemons s) = None" by (auto simp: find_None_iff)
    with field show "jget (JObj item) ''pokemon'' = Some JNull" by simp
  qed
qed

lemma favorite_item_region_nonzero:
  assumes "favorite_item serialize_p serialize_r s f = Inr item"
    and "fav_region_id f = Some k" and "k \<noteq> 0"
  shows "(\<exists>r\<in>set (regions s). r_id r = k) \<longrightarrow>
           (\<exists>r\<in>set (regions s). r_id r = k \<and> jget (JObj item) ''region'' = Some (serialize_r r))"
    and "\<not> (\<exists>r\<in>set (regions s). r_id r = k) \<longrightarrow> jget (JObj item) ''region'' = Some JNull"
proof -
  from favorite_item_region [OF assms(1)] assms(2,3)
  have field: "jget (JObj item) ''region''
      = Some (case find (\<lambda>r. r_id r = k) (regions s) of
                Some r \<Rightarrow> serialize_r r | None \<Rightarrow> JNull)"
    by simp
  show "(\<exists>r\<in>set (regions s). r_id r = k) \<longrightarrow>
           (\<exists>r\<in>set (regions s). r_id r = k \<and> jget (JObj item) ''region'' = Some (serialize_r r))"
  proof (cases "find (\<lambda>r. r_id r = k) (regions s)")
    case None
    then show ?thesis by (auto simp: find_None_iff)
  next
    case (Some r)
    then have "r \<in> set (regions s)" "r_id r = k" by (auto simp: find_Some_iff)
    with field Some show ?thesis by auto
  qed
  show "\<not> (\<exists>r\<in>set (regions s). r_id r = k) \<longrightarrow> jget (JObj item) ''region'' = Some JNull"
  proof
    assume "\<not> (\<exists>r\<in>set (regions s). r_id r = k)"
    then have "find (\<lambda>r. r_id r = k) (regions s) = None" by (auto simp: find_None_iff)
    with field show "jget (JObj item) ''region'' = Some JNull" by simp
  qed
qed

lemma example_store_zero_eq:
  "example_store_zero = example_store\<lparr>favorites := [Favorite_row 1 1 (Some 0) None]\<rparr>"
  by (simp add: example_store_zero_def add_fav_pokemon_def resolver_defs query_defs
      example_defs accessor_defs Let_def)

text \<open>
  Claim C10. In the answer of \<^verbatim>\<open>GET /users/favorites\<close> the item of a favorite has the key
  \<open>pokemon\<close> exactly when the favorite's \<open>pokemon_id\<close> is set and not 0, and the key \<open>region\<close>
  exactly when its \<open>region_id\<close> is set and not 0; for a target that is null or 0 the key is
  absent from the item.
\<close>

theorem C10_enrichment_keys:
  "current_user req s = Inr u \<longrightarrow>
     (\<exists>rows items. list_my_favorites serialize_p serialize_r req s
                      = (Inr (JArr (map JObj items), 200), s)
        \<and> map (favorite_item serialize_p serialize_r s) rows = map Inr items
        \<and> set rows = {f \<in> set (favorites s). fav_user_id f = u}
        \<and> (\<forall>f\<in>set rows. \<exists>item. favorite_item serialize_p serialize_r s f = Inr item
              \<and> (''pokemon'' \<in> jkeys (JObj item))
                  = (\<exists>k. fav_pokemon_id f = Some k \<and> k \<noteq> 0)
              \<and> (''region'' \<in> jkeys (JObj item))
                  = (\<exists>k. fav_region_id f = Some k \<and> k \<noteq> 0)))"
proof
  assume u: "current_user req s = Inr u"
  let ?rows = "order_by_id fav_id (filter (\<lambda>f. fav_user_id f = u) (favorites s))"
  from list_my_favorites_rows [OF u] obtain items where
    l: "list_my_favorites serialize_p serialize_r req s = (Inr (JArr (map JObj items), 200), s)"
    and m: "map (favorite_item serialize_p serialize_r s) ?rows = map Inr items"
    by blast
  have r: "set ?rows = {f \<in> set (favorites s). fav_user_id f = u}"
    by (simp add: order_by_id_def)
  have k: "\<exists>item. favorite_item serialize_p serialize_r s f = Inr item
              \<and> (''pokemon'' \<in> jkeys (JObj item))
                  = (\<exists>k. fav_pokemon_id f = Some k \<and> k \<noteq> 0)
              \<and> (''region'' \<in> jkeys (JObj item))
                  = (\<exists>k. fav_region_id f = Some k \<and> k \<noteq> 0)" for f
  proof -
    from favorite_item_total obtain item where
      item: "favorite_item serialize_p serialize_r s f = Inr item" by blast
    from favorite_item_keys [OF item] item show ?thesis
      by (simp add: truthy_int_iff)
  qed
  from l m r k show "\<exists>rows items. list_my_favorites serialize_p serialize_r req s
                      = (Inr (JArr (map JObj items), 200), s)
        \<and> map (favorite_item serialize_p serialize_r s) rows = map Inr items
        \<and> set rows = {f \<in> set (favorites s). fav_user_id f = u}
        \<and> (\<forall>f\<in>set rows. \<exists>item. favorite_item serialize_p serialize_r s f = Inr item
              \<and> (''pokemon'' \<in> jkeys (JObj item))
                  = (\<exists>k. fav_pokemon_id f = Some k \<and> k \<noteq> 0)
              \<and> (''region'' \<in> jkeys (JObj item))
                  = (\<exists>k. fav_region_id f = Some k \<and> k \<noteq> 0))"
    by blast
qed

text \<open>
  The favorite of Pokemon 0 is listed without either key; in the store with deleted
  targets, favorite 2 has the key \<open>pokemon\<close> only and favorite 3 the key \<open>region\<close> only.
\<close>

theorem C10_enrichment_keys_witness:
  "current_user (request_of (Some ''1'') None) example_store_zero = Inr 1
   \<and> list_my_favorites example_serialize_p example_serialize_r (request_of (Some ''1'') None)
        example_store_zero
       = (Inr (JArr [JObj [(''id'', JInt 1), (''user_id'', JInt 1), (''pokemon_id'', JInt 0),
                           (''region_id'', JNull)]], 200), example_store_zero)
   \<and> (\<exists>item. favorite_item example_serialize_p example_serialize_r example_store_zero
                (Favorite_row 1 1 (Some 0) None) = Inr item
         \<and> ''pokemon'' \<notin> jkeys (JObj item) \<and> ''region'' \<notin> jkeys (JObj item))
   \<and> current_user (request_of (Some ''1'') None) example_store_stale = Inr 1
   \<and> (\<exists>item. favorite_item example_serialize_p example_serialize_r example_store_stale
                (Favorite_row 2 1 (Some 9) None) = Inr item
         \<and> ''pokemon'' \<in> jkeys (JObj item) \<and> ''region'' \<notin> jkeys (JObj item))
   \<and> (\<exists>item. favorite_item example_serialize_p example_serialize_r example_store_stale
                (Favorite_row 3 1 None (Some 7)) = Inr item
         \<and> ''pokemon'' \<notin> jkeys (JObj item) \<and> ''region'' \<in> jkeys (JObj item))"
proof -
  let ?R = "request_of (Some ''1'') None"
  let ?F0 = "Favorite_row 1 1 (Some 0) None"
  let ?F2 = "Favorite_row 2 1 (Some 9) None"
  let ?F3 = "Favorite_row 3 1 None (Some 7)"
  have h0: "current_user ?R example_store_zero = Inr 1"
    unfolding example_store_zero_eq
    by (simp add: resolver_defs query_defs example_defs accessor_defs)
  have hs: "current_user ?R example_store_stale = Inr 1"
    by (simp add: resolver_defs query_defs example_defs accessor_defs)
  have l: "list_my_favorites example_serialize_p example_serialize_r ?R example_store_zero
       = (Inr (JArr [JObj [(''id'', JInt 1), (''user_id'', JInt 1), (''pokemon_id'', JInt 0),
                           (''region_id'', JNull)]], 200), example_store_zero)"
    unfolding list_my_favorites_def h0
    by (simp add: example_store_zero_eq query_defs example_defs accessor_defs
        favorite_item_def enrich_pokemon_def enrich_region_def Favorite_serialize_def
        json_opt_int_def)
  have m0: "?F0 \<in> {f \<in> set (favorites example_store_zero). fav_user_id f = 1}"
    by (simp add: example_store_zero_eq example_defs accessor_defs)
  have ms: "?F2 \<in> {f \<in> set (favorites example_store_stale). fav_user_id f = 1}"
    "?F3 \<in> {f \<in> set (favorites example_store_stale). fav_user_id f = 1}"
    by (simp_all add: example_defs accessor_defs)
  have t: "\<not> (\<exists>k. fav_pokemon_id ?F0 = Some k \<and> k \<noteq> 0)"
    "\<not> (\<exists>k. fav_region_id ?F0 = Some k \<and> k \<noteq> 0)"
    "\<exists>k. fav_pokemon_id ?F2 = Some k \<and> k \<noteq> 0"
    "\<not> (\<exists>k. fav_region_id ?F2 = Some k \<and> k \<noteq> 0)"
    "\<not> (\<exists>k. fav_pokemon_id ?F3 = Some k \<and> k \<noteq> 0)"
    "\<exists>k. fav_region_id ?F3 = Some k \<and> k \<noteq> 0"
    by (simp_all add: accessor_defs)
  from C10_enrichment_keys [of ?R example_store_zero 1 example_serialize_p example_serialize_r]
    h0 m0 t(1,2)
  have k0: "\<exists>item. favorite_item example_serialize_p example_serialize_r example_store_zero ?F0
                = Inr item
         \<and> ''pokemon'' \<notin> jkeys (JObj item) \<and> ''region'' \<notin> jkeys (JObj item)"
    by blast
  from C10_enrichment_keys [of ?R example_store_stale 1 example_serialize_p example_serialize_r]
    hs ms(1) t(3,4)
  have k2: "\<exists>item. favorite_item example_serialize_p example_serialize_r example_store_stale ?F2
                = Inr item
         \<and> ''pokemon'' \<in> jkeys (JObj item) \<and> ''region'' \<notin> jkeys (JObj item)"
    by blast
  from C10_enrichment_keys [of ?R example_store_stale 1 example_serialize_p example_serialize_r]
    hs ms(2) t(5,6)
  have k3: "\<exists>item. favorite_item example_serialize_p example_serialize_r example_store_stale ?F3
                = Inr item
         \<and> ''pokemon'' \<notin> jkeys (JObj item) \<and> ''region'' \<in> jkeys (JObj item)"
    by blast
  from h0 l k0 hs k2 k3 show ?thesis by (intro conjI)
qed

text \<open>
  Claim C5 says that a listed favorite whose \<open>pokemon_id\<close> is some \<open>k\<close> with Pokemon \<open>k\<close> in
  the store carries the serialization of that Pokemon in its \<open>pokemon\<close> field. Pokemon 0 is
  in the example store: \<^verbatim>\<open>GET /pokemons/0\<close> returns it and \<^verbatim>\<open>POST /favorite/pokemon/0\<close>
  makes it a favorite of user 1. The listing of user 1 then shows the favorite without a
  \<open>pokemon\<close> field.
\<close>

theorem C5_zero_id_not_enriched:
  "get_pokemon example_serialize_p 0 example_store
     = (Inr (JObj [(''id'', JInt 0), (''name'', JStr ''missingno'')], 200), example_store)
   \<and> add_fav_pokemon (request_of (Some ''1'') None) 0 example_store
     = (Inr (JObj [(''id'', JInt 1), (''user_id'', JInt 1), (''pokemon_id'', JInt 0),
                   (''region_id'', JNull)], 201), example_store_zero)
   \<and> list_my_favorites example_serialize_p example_serialize_r (request_of (Some ''1'') None)
        example_store_zero
       = (Inr (JArr [JObj [(''id'', JInt 1), (''user_id'', JInt 1), (''pokemon_id'', JInt 0),
                           (''region_id'', JNull)]], 200), example_store_zero)
   \<and> jget (JObj [(''id'', JInt 1), (''user_id'', JInt 1), (''pokemon_id'', JInt 0),
                  (''region_id'', JNull)]) ''pokemon'' = None"
proof -
  have h: "current_user (request_of (Some ''1'') None) example_store = Inr 1"
    by (simp add: resolver_defs query_defs example_defs accessor_defs)
  have h0: "current_user (request_of (Some ''1'') None) example_store_zero = Inr 1"
    unfolding example_store_zero_eq
    by (simp add: resolver_defs query_defs example_defs accessor_defs)
  have g: "get_pokemon example_serialize_p 0 example_store
     = (Inr (JObj [(''id'', JInt 0), (''name'', JStr ''missingno'')], 200), example_store)"
    by (simp add: get_pokemon_def query_defs example_defs accessor_defs)
  have a: "add_fav_pokemon (request_of (Some ''1'') None) 0 example_store
     = (Inr (JObj [(''id'', JInt 1), (''user_id'', JInt 1), (''pokemon_id'', JInt 0),
                   (''region_id'', JNull)], 201), example_store_zero)"
    unfolding example_store_zero_eq add_fav_pokemon_def h
    by (simp add: query_defs example_defs accessor_defs Favorite_serialize_def
        json_opt_int_def Let_def)
  have l: "list_my_favorites example_serialize_p example_serialize_r
        (request_of (Some ''1'') None) example_store_zero
       = (Inr (JArr [JObj [(''id'', JInt 1), (''user_id'', JInt 1), (''pokemon_id'', JInt 0),
                           (''region_id'', JNull)]], 200), example_store_zero)"
    unfolding list_my_favorites_def h0
    by (simp add: example_store_zero_eq query_defs example_defs accessor_defs
        favorite_item_def enrich_pokemon_def enrich_region_def Favorite_serialize_def
        json_opt_int_def)
  from g a l show ?thesis by simp
qed

section \<open>The identity resolver\<close>

text \<open>
  On decimal numerals of at most 4300 digits \<^verbatim>\<open>isdigit\<close> and \<^verbatim>\<open>int\<close> agree with the
  reader's notion: the test passes and the conversion returns the number. A longer decimal
  numeral passes the test and the conversion raises \<^verbatim>\<open>ValueError\<close>.
\<close>

lemma ascii_digit_not_space: "is_ascii_digit c \<Longrightarrow> \<not> is_space c"
  by (auto simp: is_ascii_digit_def is_space_def)

lemma ascii_digit_not_sign: "is_ascii_digit c \<Longrightarrow> c \<noteq> CHR ''-'' \<and> c \<noteq> CHR ''+''"
  by (auto simp: is_ascii_digit_def)

lemma ascii_digit_not_superscript: "is_ascii_digit c \<Longrightarrow> \<not> is_superscript_digit c"
  by (auto simp: is_ascii_digit_def is_superscript_digit_def)

lemma strip_decimal:
  assumes "is_decimal s"
  shows "strip s = s"
proof -
  from assms obtain c cs where s: "s = c # cs" and c: "is_ascii_digit c"
    by (cases s) (auto simp: is_decimal_def)
  then have front: "dropWhile is_space s = s"
    by (simp add: ascii_digit_not_space)
  from assms have "rev s \<noteq> []" and "is_ascii_digit (hd (rev s))"
    by (auto simp: is_decimal_def list_all_iff hd_rev)
  then have "dropWhile is_space (rev s) = rev s"
    by (cases "rev s") (simp_all add: ascii_digit_not_space)
  with front show ?thesis by (simp add: strip_def)
qed

lemma digits_value_decimal:
  "list_all is_ascii_digit cs \<Longrightarrow> cs \<noteq> [] \<Longrightarrow>
     digits_value b acc cs = Inr (foldl (\<lambda>acc c. acc * 10 + digit_val c) acc cs)"
proof (induction cs arbitrary: b acc)
  case Nil
  then show ?case by simp
next
  case (Cons c cs)
  from Cons.prems have c: "is_ascii_digit c" and rest: "list_all is_ascii_digit cs"
    by simp_all
  show ?case
  proof (cases "cs = []")
    case True
    with c show ?thesis by simp
  next
    case False
    from Cons.IH [OF rest False, of True "acc * 10 + digit_val c"] c
    show ?thesis by (simp only: digits_value.simps foldl_Cons if_True)
  qed
qed

lemma decimal_digit_count: "is_decimal s \<Longrightarrow> length (filter is_ascii_digit s) = length s"
  by (simp add: is_decimal_def list_all_iff)

lemma py_int_decimal:
  assumes "is_decimal s" and "length s \<le> max_str_digits"
  shows "py_int s = Inr (decimal_value s)"
proof -
  from assms(1) obtain c cs where s: "s = c # cs" and c: "is_ascii_digit c"
    by (cases s) (auto simp: is_decimal_def)
  from assms(1) have "digits_value False 0 s = Inr (decimal_value s)"
    by (simp add: is_decimal_def decimal_value_def digits_value_decimal)
  with s c assms(2) show ?thesis
    using strip_decimal [OF assms(1)] ascii_digit_not_sign [OF c]
      decimal_digit_count [OF assms(1)]
    by (simp add: py_int_def)
qed

lemma py_int_too_long:
  assumes "is_decimal s" and "max_str_digits < length s"
  shows "py_int s = Inl ValueError"
  using assms decimal_digit_count [OF assms(1)] by (simp add: py_int_def)

lemma isdigit_decimal:
  "isdigit s \<and> \<not> (\<exists>c\<in>set s. is_superscript_digit c) \<longleftrightarrow> is_decimal s"
  by (auto simp: isdigit_def is_decimal_def list_all_iff ascii_digit_not_superscript)

lemma resolver_rejects_long_numeral:
  assumes "is_decimal t" and "max_str_digits < length t"
  shows "get_current_user_id (request_of (Some t) h) s = Inl ValueError"
proof -
  from assms(1) have "t \<noteq> []" and "isdigit t"
    using isdigit_decimal [of t] by (auto simp: is_decimal_def)
  with py_int_too_long [OF assms] show ?thesis
    by (simp add: get_current_user_id_def request_of_def)
qed

lemma sort_key_Nil: "sort_key pk rows = [] \<longleftrightarrow> rows = []"
  using length_sort [of pk rows] by (metis length_0_conv)

lemma first_order_by_id:
  "first (order_by_id pk rows)
     = (if rows = [] then None else Some (hd (order_by_id pk rows)))"
  by (cases "sort_key pk rows") (auto simp: first_def order_by_id_def sort_key_Nil)

lemma hd_order_by_id:
  assumes "rows \<noteq> []"
  shows "pk (hd (order_by_id pk rows)) = Min (pk ` set rows)"
proof -
  let ?xs = "sort_key pk rows"
  from assms have ne: "?xs \<noteq> []" by (simp add: sort_key_Nil)
  then obtain x xs where xs: "?xs = x # xs" by (cases ?xs) auto
  have "sorted (map pk ?xs)" by simp
  with xs have "\<forall>y\<in>set xs. pk x \<le> pk y" by simp
  moreover have "set (x # xs) = set rows" using xs by (metis set_sort)
  ultimately have "pk x = Min (pk ` set rows)"
    by (intro Min_eqI [symmetric]) auto
  with xs show ?thesis by (simp add: order_by_id_def)
qed

text \<open>
  The precedence of the three sources, for a request whose supplied values contain no
  superscript digit and at most 4300 digits.
\<close>

lemma resolver_precedence_decimal:
  fixes req :: request and s :: "('p, 'r) store"
  assumes "\<forall>t. args_user_id req = Some t \<longrightarrow>
             \<not> (\<exists>c\<in>set t. is_superscript_digit c) \<and> length t \<le> max_str_digits"
    and "\<forall>t. header_x_user_id req = Some t \<longrightarrow>
             \<not> (\<exists>c\<in>set t. is_superscript_digit c) \<and> length t \<le> max_str_digits"
  shows "get_current_user_id req s =
     (case args_user_id req of
        Some q \<Rightarrow> if is_decimal q then Inr (decimal_value q) else
          (case header_x_user_id req of
             Some h \<Rightarrow> if is_decimal h then Inr (decimal_value h) else
               (if users s = [] then Inl (APIException no_users_msg 400)
                else Inr (Min (u_id ` set (users s))))
           | None \<Rightarrow>
               (if users s = [] then Inl (APIException no_users_msg 400)
                else Inr (Min (u_id ` set (users s)))))
      | None \<Rightarrow>
          (case header_x_user_id req of
             Some h \<Rightarrow> if is_decimal h then Inr (decimal_value h) else
               (if users s = [] then Inl (APIException no_users_msg 400)
                else Inr (Min (u_id ` set (users s))))
           | None \<Rightarrow>
               (if users s = [] then Inl (APIException no_users_msg 400)
                else Inr (Min (u_id ` set (users s))))))"
proof -
  have fallback: "(case first (order_by_id u_id (users s)) of
                 None \<Rightarrow> Inl (APIException no_users_msg 400)
               | Some first_user \<Rightarrow> Inr (u_id first_user))
      = (if users s = [] then Inl (APIException no_users_msg 400)
         else Inr (Min (u_id ` set (users s))))"
    by (simp add: first_order_by_id hd_order_by_id)
  have q: "(truthy_str (args_user_id req) \<and> isdigit (the (args_user_id req)))
      = (\<exists>t. args_user_id req = Some t \<and> is_decimal t)"
    using assms(1) isdigit_decimal
    by (cases "args_user_id req") (auto simp: isdigit_def)
  have h: "(truthy_str (header_x_user_id req) \<and> isdigit (the (header_x_user_id req)))
      = (\<exists>t. header_x_user_id req = Some t \<and> is_decimal t)"
    using assms(2) isdigit_decimal
    by (cases "header_x_user_id req") (auto simp: isdigit_def)
  show ?thesis
    unfolding get_current_user_id_def Let_def q h fallback
    using assms by (auto simp: py_int_decimal split: option.splits)
qed

text \<open>
  Claim C9 says that a supplied value other than a non-empty string of decimal digits is
  ignored and that a supplied id is never rejected with an error. The values \<^verbatim>\<open>-3\<close>,
  \<^verbatim>\<open>+5\<close>, \<^verbatim>\<open>12a\<close> and the empty string are indeed ignored: the resolver falls through to
  the lowest user, 1. But the one-character string U+00B2 (superscript two) passes
  \<^verbatim>\<open>isdigit\<close> without being a decimal numeral, and \<^verbatim>\<open>int\<close> then raises \<^verbatim>\<open>ValueError\<close>.
\<close>

theorem C9_superscript_digit_raises:
  "get_current_user_id (request_of (Some ''-3'') None) example_store = Inr 1
   \<and> get_current_user_id (request_of (Some ''+5'') None) example_store = Inr 1
   \<and> get_current_user_id (request_of (Some ''12a'') None) example_store = Inr 1
   \<and> get_current_user_id (request_of (Some []) None) example_store = Inr 1
   \<and> isdigit [CHR 0xB2]
   \<and> \<not> is_decimal [CHR 0xB2]
   \<and> get_current_user_id (request_of (Some [CHR 0xB2]) None) example_store = Inl ValueError"
  by (simp add: resolver_defs query_defs example_defs accessor_defs is_decimal_def)

text \<open>
  Claim C4 says that a query parameter that is not numeric leaves the decision to the
  header, and a header that is not numeric leaves it to the lowest user. With the query
  value U+00B2 and the header \<^verbatim>\<open>2\<close> the resolver raises \<^verbatim>\<open>ValueError\<close> where the header
  alone gives user 2; with the header U+00B9 alone it raises \<^verbatim>\<open>ValueError\<close> where no
  header gives the lowest user, 1.
\<close>

theorem C4_superscript_digit_breaks_precedence:
  "get_current_user_id (request_of (Some [CHR 0xB2]) (Some ''2'')) example_store
     = Inl ValueError
   \<and> get_current_user_id (request_of None (Some ''2'')) example_store = Inr 2
   \<and> get_current_user_id (request_of None (Some [CHR 0xB9])) example_store = Inl ValueError
   \<and> get_current_user_id (request_of None None) example_store = Inr 1"
  by (simp add: resolver_defs query_defs example_defs accessor_defs)

end
